theory Spec2Isabelle
  imports Main
begin

section \<open>SboArray: a small-buffer-optimised array (sbo\_array.h)\<close>

text \<open>
  The class template \<open>SboArray<T, size_threshold>\<close> keeps its elements in a buffer
  inside the object while it can and in a heap block otherwise. The embedding below
  follows the header function by function. Container objects and heap blocks live in an
  explicit store, because the code keeps raw pointers (\<open>cached_data_ptr\<close>, the iterators)
  and two containers meet in the copy and move operations.
\<close>

subsection \<open>Pointers, slots and outcomes\<close>

text \<open>
  A \<open>T*\<close> is null, a bit pattern that designates no storage, or a slot position in the
  inline buffer of the container object at some address or in a heap block.
\<close>

datatype base = StackOf nat | HeapBlock nat

datatype pointer = nullptr | Garbage | Ptr base int

text \<open>
  A slot of raw storage either holds no object (and bytes of no known value) or holds an
  object with a value.
\<close>

datatype 'a slot = Raw | Obj 'a

text \<open>
  A parameter of type \<open>const T&\<close> or \<open>T&&\<close> designates an object: \<open>Value v\<close> is an
  object outside the containers and heap blocks of the store, with the value \<open>v\<close> (a
  local variable, a temporary, a literal); \<open>Ref p\<close> is the slot at \<open>p\<close>, an element of a
  container. The header reads the object at the moment it constructs the new element from
  it, not when the call begins.
\<close>

datatype 'a arg = Value 'a | Ref pointer

text \<open>
  A run ends at undefined behaviour: an access through a pointer that designates no
  storage or leaves its array, a bad \<open>free\<close>, overlapping \<open>memcpy\<close>, an order or
  difference of pointers into different arrays, a failed \<open>assert\<close>, a member call on no
  object; and, for an element type that is not plain, a destructor call on a slot that holds
  no object, an assignment to such a slot, a copy or move from such a slot. Constructing
  over an object that was never destroyed loses that object for good and ends the run too.
  So does the conversion of a floating-point value to \<open>size_t\<close> when \<open>size_t\<close> cannot
  hold it.
\<close>

datatype fault = BadPointer | OutOfBounds | BadFree | Overlap | UnrelatedPointers
  | AssertionFailed | NoObject | DestroyedDead | AssignedDead | ReadDead | Overwritten
  | FloatOverflow

datatype exn = bad_alloc | out_of_range

text \<open>
  \<open>union Storage { char stack_buffer[size_threshold * sizeof(T)]; T* heap_ptr; }\<close>:
  the bytes hold the inline slots or the pointer, writing one arm destroys the other.
\<close>

datatype 'a Storage = stack_buffer "'a slot list" | heap_ptr pointer

record 'a SboArray =
  storage :: "'a Storage"
  count :: nat
  capacity :: nat
  using_heap :: bool
  cached_data_ptr :: pointer

text \<open>
  The template arguments: the threshold, the trait \<open>plain_old_data\<close>, the trait
  \<open>std::is_trivially_default_constructible_v<T>\<close>, the value of \<open>T()\<close>, \<open>sizeof(T)\<close>,
  the value that a plain \<open>T\<close> has when all its bytes are zero, whether an object of
  \<open>T\<close> is still an object of \<open>T\<close> after its bytes have been copied to another place
  (a plain \<open>T\<close> is; a string that points into its own bytes is not), and the value that
  the move constructor of a non-plain \<open>T\<close> leaves in its source.
\<close>

record 'a traits =
  size_threshold :: nat
  plain_old_data :: bool
  trivially_default_constructible :: bool
  default_T :: 'a
  sizeof_T :: nat
  zero_T :: 'a
  trivially_relocatable :: bool
  moved_from :: "'a \<Rightarrow> 'a"

text \<open>
  The store: container objects by address, heap blocks by number, the next fresh block,
  and whether the allocator is out of memory.
\<close>

record 'a world =
  objs :: "nat \<Rightarrow> 'a SboArray option"
  heap :: "nat \<Rightarrow> 'a slot list option"
  next_block :: nat
  oom :: bool

datatype ('r, 'a) outcome = Returns 'r "'a world" | Throws exn "'a world" | Undefined fault

fun and_then :: "('r, 'a) outcome \<Rightarrow> ('r \<Rightarrow> 'a world \<Rightarrow> ('s, 'a) outcome) \<Rightarrow> ('s, 'a) outcome" where
  "and_then (Returns r w) f = f r w"
| "and_then (Throws e w) f = Throws e w"
| "and_then (Undefined u) f = Undefined u"

fun ptr_add :: "pointer \<Rightarrow> int \<Rightarrow> pointer" where
  "ptr_add (Ptr b i) k = Ptr b (i + k)"
| "ptr_add nullptr k = (if k = 0 then nullptr else Garbage)"
| "ptr_add Garbage k = Garbage"

text \<open>Difference and order of two pointers are defined inside one array only.\<close>

fun ptr_diff :: "pointer \<Rightarrow> pointer \<Rightarrow> int option" where
  "ptr_diff (Ptr b i) (Ptr c j) = (if b = c then Some (i - j) else None)"
| "ptr_diff nullptr nullptr = Some 0"
| "ptr_diff p q = None"

definition ptr_less :: "pointer \<Rightarrow> pointer \<Rightarrow> bool option" where
  "ptr_less p q = map_option (\<lambda>d. d < 0) (ptr_diff p q)"

subsection \<open>Memory\<close>

definition stack_slots :: "'a traits \<Rightarrow> 'a Storage \<Rightarrow> 'a slot list" where
  "stack_slots T s =
     (case s of stack_buffer ss \<Rightarrow> ss | heap_ptr p \<Rightarrow> replicate (size_threshold T) Raw)"

text \<open>The inline buffer's bytes read as a pointer designate no storage.\<close>

definition read_heap_ptr :: "'a Storage \<Rightarrow> pointer" where
  "read_heap_ptr s = (case s of heap_ptr p \<Rightarrow> p | stack_buffer ss \<Rightarrow> Garbage)"

fun region :: "'a traits \<Rightarrow> 'a world \<Rightarrow> base \<Rightarrow> 'a slot list option" where
  "region T w (StackOf c) = map_option (\<lambda>a. stack_slots T (storage a)) (objs w c)"
| "region T w (HeapBlock b) = heap w b"

fun set_region :: "base \<Rightarrow> 'a slot list \<Rightarrow> 'a world \<Rightarrow> 'a world" where
  "set_region (StackOf c) ss w =
     w\<lparr>objs := (objs w)(c := map_option (\<lambda>a. a\<lparr>storage := stack_buffer ss\<rparr>) (objs w c))\<rparr>"
| "set_region (HeapBlock b) ss w = w\<lparr>heap := (heap w)(b \<mapsto> ss)\<rparr>"

definition load :: "'a traits \<Rightarrow> pointer \<Rightarrow> 'a world \<Rightarrow> ('a slot, 'a) outcome" where
  "load T p w =
     (case p of
        Ptr b i \<Rightarrow>
          (case region T w b of
             None \<Rightarrow> Undefined BadPointer
           | Some ss \<Rightarrow>
               if 0 \<le> i \<and> nat i < length ss then Returns (ss ! nat i) w
               else Undefined OutOfBounds)
      | _ \<Rightarrow> Undefined BadPointer)"

definition store :: "'a traits \<Rightarrow> pointer \<Rightarrow> 'a slot \<Rightarrow> 'a world \<Rightarrow> (unit, 'a) outcome" where
  "store T p s w =
     (case p of
        Ptr b i \<Rightarrow>
          (case region T w b of
             None \<Rightarrow> Undefined BadPointer
           | Some ss \<Rightarrow>
               if 0 \<le> i \<and> nat i < length ss then Returns () (set_region b (ss[nat i := s]) w)
               else Undefined OutOfBounds)
      | _ \<Rightarrow> Undefined BadPointer)"

text \<open>\<open>new (p) T(v)\<close>\<close>

definition new_at :: "'a traits \<Rightarrow> pointer \<Rightarrow> 'a \<Rightarrow> 'a world \<Rightarrow> (unit, 'a) outcome" where
  "new_at T p v w =
     and_then (load T p w) (\<lambda>old w.
       if old \<noteq> Raw \<and> \<not> plain_old_data T then Undefined Overwritten
       else store T p (Obj v) w)"

text \<open>
  \<open>new (p) T(src)\<close> with \<open>src\<close> a slot of storage, and \<open>new (p) T(std::move(src))\<close>
  in \<open>MoveElements\<close>, where the source is destroyed next.
\<close>

definition new_from :: "'a traits \<Rightarrow> pointer \<Rightarrow> pointer \<Rightarrow> 'a world \<Rightarrow> (unit, 'a) outcome" where
  "new_from T p src w =
     and_then (load T src w) (\<lambda>s w.
       case s of
         Obj v \<Rightarrow> new_at T p v w
       | Raw \<Rightarrow> if plain_old_data T then store T p Raw w else Undefined ReadDead)"

text \<open>\<open>p->~T()\<close>\<close>

definition destroy_at :: "'a traits \<Rightarrow> pointer \<Rightarrow> 'a world \<Rightarrow> (unit, 'a) outcome" where
  "destroy_at T p w =
     and_then (load T p w) (\<lambda>s w.
       case s of
         Obj v \<Rightarrow> store T p Raw w
       | Raw \<Rightarrow> Undefined DestroyedDead)"

text \<open>
  \<open>*dest = std::move(*src)\<close>. The source keeps an object; for a non-plain element type
  the header overwrites or destroys that object before anything reads it again, so its
  value is left as it was.
\<close>

definition move_assign :: "'a traits \<Rightarrow> pointer \<Rightarrow> pointer \<Rightarrow> 'a world \<Rightarrow> (unit, 'a) outcome" where
  "move_assign T dest src w =
     and_then (load T src w) (\<lambda>s w.
     and_then (load T dest w) (\<lambda>d w.
       if \<not> plain_old_data T \<and> s = Raw then Undefined ReadDead
       else if \<not> plain_old_data T \<and> d = Raw then Undefined AssignedDead
       else store T dest s w))"

text \<open>
  The loops of the header run a body over a range of indices: \<open>for (i = 0; i < n; ++i)\<close>
  is \<open>for_each [0..<n]\<close>, the backward loop \<open>for (i = n; i > 0; --i)\<close> with
  \<open>index = i - 1\<close> is \<open>for_each (rev [0..<n])\<close>.
\<close>

fun for_each :: "nat list \<Rightarrow> (nat \<Rightarrow> 'a world \<Rightarrow> (unit, 'a) outcome) \<Rightarrow> 'a world \<Rightarrow> (unit, 'a) outcome" where
  "for_each [] body w = Returns () w"
| "for_each (i # is) body w = and_then (body i w) (\<lambda>_. for_each is body)"

text \<open>
  \<open>std::memmove(dest, src, n * sizeof(T))\<close>: the source slots are read first, then
  written; moving no bytes touches nothing. A range of \<open>n\<close> slots that leaves its array
  is a fault; for a range inside an array the byte count is below \<open>2^64\<close>, as an inline
  buffer and a block that \<open>Malloc\<close> delivers have fewer bytes than that.
\<close>

definition memmove :: "'a traits \<Rightarrow> pointer \<Rightarrow> pointer \<Rightarrow> nat \<Rightarrow> 'a world \<Rightarrow> (unit, 'a) outcome" where
  "memmove T dest src n w =
     (if n = 0 then Returns () w
      else case src of
        Ptr bs j \<Rightarrow>
          (case region T w bs of
             None \<Rightarrow> Undefined BadPointer
           | Some S \<Rightarrow>
               if 0 \<le> j \<and> nat j + n \<le> length S then
                 (case dest of
                    Ptr bd i \<Rightarrow>
                      (case region T w bd of
                         None \<Rightarrow> Undefined BadPointer
                       | Some D \<Rightarrow>
                           if 0 \<le> i \<and> nat i + n \<le> length D then
                             Returns () (set_region bd
                               (take (nat i) D @ take n (drop (nat j) S) @ drop (nat i + n) D) w)
                           else Undefined OutOfBounds)
                  | _ \<Rightarrow> Undefined BadPointer)
               else Undefined OutOfBounds)
      | _ \<Rightarrow> Undefined BadPointer)"

text \<open>\<open>std::memcpy\<close>: as \<open>memmove\<close>, and undefined when the two ranges overlap.\<close>

definition ranges_overlap :: "pointer \<Rightarrow> pointer \<Rightarrow> nat \<Rightarrow> bool" where
  "ranges_overlap dest src n =
     (case ptr_diff dest src of None \<Rightarrow> False | Some d \<Rightarrow> 0 < n \<and> \<bar>d\<bar> < int n)"

definition memcpy :: "'a traits \<Rightarrow> pointer \<Rightarrow> pointer \<Rightarrow> nat \<Rightarrow> 'a world \<Rightarrow> (unit, 'a) outcome" where
  "memcpy T dest src n w =
     (if ranges_overlap dest src n then Undefined Overlap else memmove T dest src n w)"

text \<open>
  \<open>std::move(first, last, d_first)\<close> assigns front to back and returns the end of the
  destination; \<open>std::move_backward(first, last, d_last)\<close> assigns back to front. A range
  whose end lies before its start is walked off the array.
\<close>

definition std_move :: "'a traits \<Rightarrow> pointer \<Rightarrow> pointer \<Rightarrow> pointer \<Rightarrow> 'a world \<Rightarrow> (pointer, 'a) outcome" where
  "std_move T first lst d_first w =
     (case ptr_diff lst first of
        None \<Rightarrow> Undefined UnrelatedPointers
      | Some n \<Rightarrow>
          if n < 0 then Undefined OutOfBounds
          else and_then
            (for_each [0..<nat n]
               (\<lambda>k. move_assign T (ptr_add d_first (int k)) (ptr_add first (int k))) w)
            (\<lambda>_. Returns (ptr_add d_first n)))"

definition std_move_backward :: "'a traits \<Rightarrow> pointer \<Rightarrow> pointer \<Rightarrow> pointer \<Rightarrow> 'a world \<Rightarrow> (pointer, 'a) outcome" where
  "std_move_backward T first lst d_last w =
     (case ptr_diff lst first of
        None \<Rightarrow> Undefined UnrelatedPointers
      | Some n \<Rightarrow>
          if n < 0 then Undefined OutOfBounds
          else and_then
            (for_each (rev [0..<nat n])
               (\<lambda>k. move_assign T (ptr_add d_last (int k - n)) (ptr_add first (int k))) w)
            (\<lambda>_. Returns (ptr_add d_last (- n))))"

subsection \<open>Access to the object\<close>

definition get :: "nat \<Rightarrow> 'a world \<Rightarrow> ('a SboArray, 'a) outcome" where
  "get this w = (case objs w this of None \<Rightarrow> Undefined NoObject | Some a \<Rightarrow> Returns a w)"

definition modify :: "nat \<Rightarrow> ('a SboArray \<Rightarrow> 'a SboArray) \<Rightarrow> 'a world \<Rightarrow> (unit, 'a) outcome" where
  "modify this f w =
     (case objs w this of
        None \<Rightarrow> Undefined NoObject
      | Some a \<Rightarrow> Returns () (w\<lparr>objs := (objs w)(this \<mapsto> f a)\<rparr>))"

text \<open>
  The default member initialisers: \<open>stack_buffer = {0}\<close>, \<open>count_ = 0\<close>,
  \<open>capacity_ = size_threshold\<close>, \<open>using_heap_ = false\<close>, \<open>cached_data_ptr_ = nullptr\<close>.
  The buffer starts with all bytes zero: read as a plain \<open>T\<close> each slot has the value
  \<open>zero_T\<close>; for a non-plain \<open>T\<close> no object has been constructed in it.
  (Isabelle reserves names that end in an underscore; the fields drop it.)
\<close>

definition member_init :: "'a traits \<Rightarrow> 'a SboArray" where
  "member_init T =
     \<lparr>storage = stack_buffer
        (replicate (size_threshold T) (if plain_old_data T then Obj (zero_T T) else Raw)),
      count = 0, capacity = size_threshold T, using_heap = False, cached_data_ptr = nullptr\<rparr>"

definition create :: "'a traits \<Rightarrow> nat \<Rightarrow> 'a world \<Rightarrow> (unit, 'a) outcome" where
  "create T this w = Returns () (w\<lparr>objs := (objs w)(this \<mapsto> member_init T)\<rparr>)"

definition UpdateDataPointer :: "'a traits \<Rightarrow> nat \<Rightarrow> 'a world \<Rightarrow> (unit, 'a) outcome" where
  "UpdateDataPointer T this w =
     modify this (\<lambda>a. a\<lparr>cached_data_ptr :=
       (if \<not> using_heap a then Ptr (StackOf this) 0 else read_heap_ptr (storage a))\<rparr>) w"

definition data_ptr :: "nat \<Rightarrow> 'a world \<Rightarrow> (pointer, 'a) outcome" where
  "data_ptr this w = and_then (get this w) (\<lambda>a. Returns (cached_data_ptr a))"

definition begin_it :: "nat \<Rightarrow> 'a world \<Rightarrow> (pointer, 'a) outcome" where
  "begin_it this w = data_ptr this w"

definition end_it :: "nat \<Rightarrow> 'a world \<Rightarrow> (pointer, 'a) outcome" where
  "end_it this w =
     and_then (get this w) (\<lambda>a. Returns (ptr_add (cached_data_ptr a) (int (count a))))"

subsection \<open>Helper functions\<close>

text \<open>
  Sizes and counts are natural numbers. A \<open>size_t\<close> holds the numbers below \<open>2^64\<close>;
  where an expression of the header can leave that range, the byte count in \<open>Malloc\<close>
  and the floating-point value in \<open>CheckSize\<close>, the definition says what happens then.
\<close>

text \<open>
  \<open>Malloc(n)\<close> asks for \<open>n * sizeof(T)\<close> bytes, a product in \<open>size_t\<close> (64 bits), which
  wraps around: the block holds as many slots as the bytes asked for have room for.
  \<open>malloc\<close> answers a failure with a null pointer, \<open>::operator new\<close> throws; a request
  for no bytes is answered with a block of no slots.
\<close>

definition Malloc :: "'a traits \<Rightarrow> nat \<Rightarrow> 'a world \<Rightarrow> (pointer, 'a) outcome" where
  "Malloc T n w =
     (let bytes = (n * sizeof_T T) mod 2 ^ 64 in
      if oom w then (if plain_old_data T then Returns nullptr w else Throws bad_alloc w)
      else Returns (Ptr (HeapBlock (next_block w)) 0)
             (w\<lparr>heap := (heap w)(next_block w \<mapsto> replicate (bytes div sizeof_T T) Raw),
                next_block := Suc (next_block w)\<rparr>))"

fun Free :: "'a traits \<Rightarrow> pointer \<Rightarrow> 'a world \<Rightarrow> (unit, 'a) outcome" where
  "Free T nullptr w = Returns () w"
| "Free T (Ptr (HeapBlock b) i) w =
     (if i = 0 \<and> heap w b \<noteq> None then Returns () (w\<lparr>heap := (heap w)(b := None)\<rparr>)
      else Undefined BadFree)"
| "Free T p w = Undefined BadFree"

text \<open>
  \<open>Construct\<close> and \<open>MoveConstruct\<close>: \<open>*dest = val\<close> copies the bytes of the object that
  \<open>val\<close> designates, the placement \<open>new\<close> constructs from it, and
  \<open>T(std::move(val))\<close> leaves the object it moved from with the value \<open>moved_from\<close>.
\<close>

definition Construct :: "'a traits \<Rightarrow> pointer \<Rightarrow> 'a arg \<Rightarrow> 'a world \<Rightarrow> (unit, 'a) outcome" where
  "Construct T dest val w =
     (if plain_old_data T then
        (case val of
           Value v \<Rightarrow> store T dest (Obj v) w
         | Ref p \<Rightarrow> and_then (load T p w) (store T dest))
      else
        (case val of
           Value v \<Rightarrow> new_at T dest v w
         | Ref p \<Rightarrow> new_from T dest p w))"

definition MoveConstruct :: "'a traits \<Rightarrow> pointer \<Rightarrow> 'a arg \<Rightarrow> 'a world \<Rightarrow> (unit, 'a) outcome" where
  "MoveConstruct T dest val w =
     (if plain_old_data T then
        (case val of
           Value v \<Rightarrow> store T dest (Obj v) w
         | Ref p \<Rightarrow> and_then (load T p w) (store T dest))
      else
        (case val of
           Value v \<Rightarrow> new_at T dest v w
         | Ref p \<Rightarrow>
             and_then (new_from T dest p w) (\<lambda>_ w.
             and_then (load T p w) (\<lambda>s.
               store T p (case s of Obj v \<Rightarrow> Obj (moved_from T v) | Raw \<Rightarrow> Raw)))))"

definition CopyElements :: "'a traits \<Rightarrow> pointer \<Rightarrow> pointer \<Rightarrow> nat \<Rightarrow> 'a world \<Rightarrow> (unit, 'a) outcome" where
  "CopyElements T dest src n w =
     (if plain_old_data T then memcpy T dest src n w
      else for_each [0..<n] (\<lambda>i. new_from T (ptr_add dest (int i)) (ptr_add src (int i))) w)"

definition MoveElements :: "'a traits \<Rightarrow> pointer \<Rightarrow> pointer \<Rightarrow> nat \<Rightarrow> 'a world \<Rightarrow> (unit, 'a) outcome" where
  "MoveElements T dest src n w =
     (if plain_old_data T then memmove T dest src n w
      else if dest = src then Returns () w
      else for_each (rev [0..<n])
             (\<lambda>index w.
                and_then (new_from T (ptr_add dest (int index)) (ptr_add src (int index)) w)
                  (\<lambda>_. destroy_at T (ptr_add src (int index)))) w)"

definition CallDestructors :: "'a traits \<Rightarrow> nat \<Rightarrow> 'a world \<Rightarrow> (unit, 'a) outcome" where
  "CallDestructors T this w =
     (if \<not> plain_old_data T then
        and_then (UpdateDataPointer T this w) (\<lambda>_ w.
        and_then (data_ptr this w) (\<lambda>ptr w.
        and_then (get this w) (\<lambda>a.
          for_each [0..<count a] (\<lambda>i. destroy_at T (ptr_add ptr (int i))))))
      else Returns () w)"

text \<open>
  \<open>Resize\<close>. On the way back to the inline buffer \<open>new_data\<close> is the buffer of this object.
\<close>

definition Resize :: "'a traits \<Rightarrow> nat \<Rightarrow> nat \<Rightarrow> 'a world \<Rightarrow> (unit, 'a) outcome" where
  "Resize T this new_cap w =
     and_then (get this w) (\<lambda>a w.
       let new_capacity = max new_cap (size_threshold T);
           number_of_elements_to_move = min (count a) new_capacity;
           will_use_heap = (new_capacity > size_threshold T)
       in
         if new_capacity = capacity a \<and> will_use_heap = using_heap a then Returns () w
         else
           and_then (UpdateDataPointer T this w) (\<lambda>_ w.
           and_then (data_ptr this w) (\<lambda>old_data w.
           and_then (if will_use_heap then Malloc T new_capacity w
                     else Returns (Ptr (StackOf this) 0) w) (\<lambda>new_data w.
           and_then (MoveElements T new_data old_data number_of_elements_to_move w) (\<lambda>_ w.
           and_then (CallDestructors T this w) (\<lambda>_ w.
           and_then (get this w) (\<lambda>a w.
           and_then (if using_heap a then Free T old_data w else Returns () w) (\<lambda>_ w.
           and_then (if will_use_heap
                     then modify this (\<lambda>a. a\<lparr>storage := heap_ptr new_data\<rparr>) w
                     else Returns () w) (\<lambda>_ w.
           and_then (modify this (\<lambda>a. a\<lparr>using_heap := will_use_heap,
                        capacity := new_capacity, count := number_of_elements_to_move\<rparr>) w) (\<lambda>_ w.
           UpdateDataPointer T this w))))))))))"


text \<open>
  \<open>size_t new_cap = (capacity_ == 0) ? size_threshold : capacity_ * growth_factor\<close> with
  \<open>constexpr float growth_factor = 2.0f\<close>: the conditional expression has type
  \<open>float\<close>, so either arm is converted to single precision (24 bits of significand, round
  to nearest, ties to even), the capacity is doubled there, and the result is converted
  back to \<open>size_t\<close>, which is undefined when the value is \<open>2^64\<close> or more. Below \<open>2^24\<close>
  the conversion to \<open>float\<close> is exact.
\<close>

fun bit_length :: "nat \<Rightarrow> nat" where
  "bit_length n = (if n = 0 then 0 else Suc (bit_length (n div 2)))"

declare bit_length.simps [simp del]

definition to_float :: "nat \<Rightarrow> nat" where
  "to_float n =
     (if n < 2 ^ 24 then n
      else let e = bit_length n - 24; q = n div 2 ^ e; r = n mod 2 ^ e; h = 2 ^ (e - 1)
           in (if r < h \<or> (r = h \<and> even q) then q else q + 1) * 2 ^ e)"

definition growth_factor :: nat where
  "growth_factor = 2"

definition CheckSize :: "'a traits \<Rightarrow> nat \<Rightarrow> 'a world \<Rightarrow> (unit, 'a) outcome" where
  "CheckSize T this w =
     and_then (get this w) (\<lambda>a w.
       if count a = capacity a then
         let new_cap = (if capacity a = 0 then to_float (size_threshold T)
                        else to_float (capacity a) * growth_factor)
         in if new_cap < 2 ^ 64 then Resize T this new_cap w else Undefined FloatOverflow
       else Returns () w)"

text \<open>
  \<open>Swap\<close> exchanges the two unions with \<open>std::swap\<close>, which copies their bytes, and
  \<open>ContainerAssignment_Move\<close> below copies the union of \<open>rhs\<close> in the same way: an
  element in an inline buffer goes to its new place without a constructor call. For an
  element type whose objects cannot be moved as bytes the slot then holds no object.
\<close>

definition copy_bytes :: "'a traits \<Rightarrow> 'a Storage \<Rightarrow> 'a Storage" where
  "copy_bytes T s =
     (case s of
        heap_ptr p \<Rightarrow> heap_ptr p
      | stack_buffer ss \<Rightarrow>
          stack_buffer (if plain_old_data T \<or> trivially_relocatable T then ss
                        else map (\<lambda>s. Raw) ss))"

definition Swap :: "'a traits \<Rightarrow> nat \<Rightarrow> nat \<Rightarrow> 'a world \<Rightarrow> (unit, 'a) outcome" where
  "Swap T this other w =
     and_then (get this w) (\<lambda>a w.
     and_then (get other w) (\<lambda>b w.
     and_then (modify this (\<lambda>x. x\<lparr>storage := copy_bytes T (storage b), count := count b,
                  capacity := capacity b, using_heap := using_heap b\<rparr>) w) (\<lambda>_ w.
     and_then (modify other (\<lambda>x. x\<lparr>storage := copy_bytes T (storage a), count := count a,
                  capacity := capacity a, using_heap := using_heap a\<rparr>) w) (\<lambda>_ w.
     and_then (UpdateDataPointer T this w) (\<lambda>_.
     UpdateDataPointer T other)))))"

subsection \<open>Constructors, assignment, destructor\<close>

definition ContainerConstructor :: "'a traits \<Rightarrow> nat \<Rightarrow> 'a world \<Rightarrow> (unit, 'a) outcome" where
  "ContainerConstructor T this w =
     and_then (create T this w) (\<lambda>_ w.
     and_then (modify this (\<lambda>a. a\<lparr>count := 0, capacity := size_threshold T\<rparr>) w) (\<lambda>_.
     UpdateDataPointer T this))"

definition ContainerConstructor_Size :: "'a traits \<Rightarrow> nat \<Rightarrow> nat \<Rightarrow> 'a world \<Rightarrow> (unit, 'a) outcome" where
  "ContainerConstructor_Size T this sz w =
     and_then (create T this w) (\<lambda>_ w.
     and_then (modify this (\<lambda>a. a\<lparr>count := 0,
                  capacity := (if sz \<le> size_threshold T then size_threshold T else sz)\<rparr>) w) (\<lambda>_ w.
     and_then (UpdateDataPointer T this w) (\<lambda>_ w.
     and_then (if \<not> trivially_default_constructible T then
                 for_each [0..<sz] (\<lambda>i w.
                   and_then (data_ptr this w) (\<lambda>p. new_at T (ptr_add p (int i)) (default_T T))) w
               else Returns () w) (\<lambda>_.
     modify this (\<lambda>a. a\<lparr>count := sz\<rparr>)))))"

text \<open>
  \<open>ContainerConstructor_SizeValue\<close> and \<open>ContainerConstructor_List\<close> read their
  arguments (\<open>value\<close>, the elements of \<open>init\<close>) while they write to the new container
  only, so the arguments are passed as values.
\<close>

definition ContainerConstructor_SizeValue :: "'a traits \<Rightarrow> nat \<Rightarrow> nat \<Rightarrow> 'a \<Rightarrow> 'a world \<Rightarrow> (unit, 'a) outcome" where
  "ContainerConstructor_SizeValue T this sz val w =
     and_then (create T this w) (\<lambda>_ w.
     and_then (modify this (\<lambda>a. a\<lparr>count := 0,
                  capacity := (if sz \<le> size_threshold T then size_threshold T else sz)\<rparr>) w) (\<lambda>_ w.
     and_then (UpdateDataPointer T this w) (\<lambda>_ w.
     and_then (for_each [0..<sz] (\<lambda>i w.
                 and_then (data_ptr this w) (\<lambda>p. new_at T (ptr_add p (int i)) val)) w) (\<lambda>_.
     modify this (\<lambda>a. a\<lparr>count := sz\<rparr>)))))"

definition ContainerConstructor_Copy :: "'a traits \<Rightarrow> nat \<Rightarrow> nat \<Rightarrow> 'a world \<Rightarrow> (unit, 'a) outcome" where
  "ContainerConstructor_Copy T this rhs w =
     and_then (create T this w) (\<lambda>_ w.
     and_then (get rhs w) (\<lambda>r w.
     and_then (modify this (\<lambda>a. a\<lparr>count := count r, capacity := capacity r,
                  using_heap := (capacity r > size_threshold T)\<rparr>) w) (\<lambda>_ w.
     and_then (get this w) (\<lambda>a w.
     and_then (if using_heap a then
                 and_then (Malloc T (capacity a) w) (\<lambda>p.
                   modify this (\<lambda>a. a\<lparr>storage := heap_ptr p\<rparr>))
               else Returns () w) (\<lambda>_ w.
     and_then (UpdateDataPointer T this w) (\<lambda>_ w.
     and_then (data_ptr this w) (\<lambda>d w.
     and_then (data_ptr rhs w) (\<lambda>s w.
     and_then (get this w) (\<lambda>a w.
     and_then (CopyElements T d s (count a) w) (\<lambda>_.
     UpdateDataPointer T this))))))))))"

definition ContainerConstructor_Move :: "'a traits \<Rightarrow> nat \<Rightarrow> nat \<Rightarrow> 'a world \<Rightarrow> (unit, 'a) outcome" where
  "ContainerConstructor_Move T this rhs w =
     and_then (create T this w) (\<lambda>_ w.
     and_then (get rhs w) (\<lambda>r w.
     and_then (modify this (\<lambda>a. a\<lparr>count := 0, capacity := capacity r,
                  using_heap := using_heap r\<rparr>) w) (\<lambda>_ w.
     and_then (UpdateDataPointer T this w) (\<lambda>_ w.
     and_then (get this w) (\<lambda>a w.
     and_then (if using_heap a then
                 and_then (get rhs w) (\<lambda>r.
                   modify this (\<lambda>a. a\<lparr>storage := heap_ptr (read_heap_ptr (storage r))\<rparr>))
               else Returns () w) (\<lambda>_ w.
     and_then (UpdateDataPointer T this w) (\<lambda>_ w.
     and_then (get this w) (\<lambda>a w.
     and_then (if \<not> using_heap a then
                 and_then (data_ptr this w) (\<lambda>d w.
                 and_then (data_ptr rhs w) (\<lambda>s w.
                 and_then (get rhs w) (\<lambda>r. MoveElements T d s (count r))))
               else Returns () w) (\<lambda>_ w.
     and_then (get rhs w) (\<lambda>r w.
     and_then (modify this (\<lambda>a. a\<lparr>count := count r\<rparr>) w) (\<lambda>_ w.
     and_then (modify rhs (\<lambda>r. r\<lparr>count := 0, capacity := size_threshold T,
                  using_heap := False\<rparr>) w) (\<lambda>_.
     UpdateDataPointer T this))))))))))))"

definition ContainerConstructor_List :: "'a traits \<Rightarrow> nat \<Rightarrow> 'a list \<Rightarrow> 'a world \<Rightarrow> (unit, 'a) outcome" where
  "ContainerConstructor_List T this init w =
     and_then (create T this w) (\<lambda>_ w.
     and_then (modify this (\<lambda>a. a\<lparr>count := length init, capacity := length init,
                  using_heap := (length init > size_threshold T)\<rparr>) w) (\<lambda>_ w.
     and_then (UpdateDataPointer T this w) (\<lambda>_ w.
     and_then (get this w) (\<lambda>a w.
     and_then (if using_heap a then
                 and_then (Malloc T (capacity a) w) (\<lambda>p.
                   modify this (\<lambda>a. a\<lparr>storage := heap_ptr p\<rparr>))
               else Returns () w) (\<lambda>_ w.
     and_then (for_each [0..<length init] (\<lambda>i w.
                 and_then (data_ptr this w) (\<lambda>p.
                   Construct T (ptr_add p (int i)) (Value (init ! i)))) w) (\<lambda>_.
     UpdateDataPointer T this))))))"

definition ContainerDestructor :: "'a traits \<Rightarrow> nat \<Rightarrow> 'a world \<Rightarrow> (unit, 'a) outcome" where
  "ContainerDestructor T this w =
     and_then (CallDestructors T this w) (\<lambda>_ w.
     and_then (get this w) (\<lambda>a w.
     and_then (if using_heap a then Free T (read_heap_ptr (storage a)) w else Returns () w) (\<lambda>_.
     UpdateDataPointer T this)))"

text \<open>
  \<open>SboArray temp(rhs)\<close> is a local object; \<open>tmp\<close> is its address. It is destroyed and
  gone when its block ends.
\<close>

definition leave_scope :: "'a traits \<Rightarrow> nat \<Rightarrow> 'a world \<Rightarrow> (unit, 'a) outcome" where
  "leave_scope T tmp w =
     and_then (ContainerDestructor T tmp w) (\<lambda>_ w.
       Returns () (w\<lparr>objs := (objs w)(tmp := None)\<rparr>))"

definition ContainerAssignment_Copy :: "'a traits \<Rightarrow> nat \<Rightarrow> nat \<Rightarrow> nat \<Rightarrow> 'a world \<Rightarrow> (unit, 'a) outcome" where
  "ContainerAssignment_Copy T tmp this rhs w =
     and_then (if this \<noteq> rhs then
                 and_then (ContainerConstructor_Copy T tmp rhs w) (\<lambda>_ w.
                 and_then (Swap T this tmp w) (\<lambda>_.
                 leave_scope T tmp))
               else Returns () w) (\<lambda>_.
     UpdateDataPointer T this)"

definition ContainerAssignment_Move :: "'a traits \<Rightarrow> nat \<Rightarrow> nat \<Rightarrow> 'a world \<Rightarrow> (unit, 'a) outcome" where
  "ContainerAssignment_Move T this rhs w =
     and_then (if this \<noteq> rhs then
                 and_then (CallDestructors T this w) (\<lambda>_ w.
                 and_then (get this w) (\<lambda>a w.
                 and_then (if using_heap a then Free T (read_heap_ptr (storage a)) w
                           else Returns () w) (\<lambda>_ w.
                 and_then (get rhs w) (\<lambda>r w.
                 and_then (modify this (\<lambda>a. a\<lparr>storage := copy_bytes T (storage r), count := count r,
                              capacity := capacity r, using_heap := using_heap r\<rparr>) w) (\<lambda>_.
                 modify rhs (\<lambda>r. r\<lparr>storage := heap_ptr nullptr, count := 0,
                   capacity := size_threshold T, using_heap := False\<rparr>))))))
               else Returns () w) (\<lambda>_.
     UpdateDataPointer T this)"


subsection \<open>Access\<close>

text \<open>The accessors return a reference: the position of the slot.\<close>

definition At :: "nat \<Rightarrow> nat \<Rightarrow> 'a world \<Rightarrow> (pointer, 'a) outcome" where
  "At this i w =
     and_then (get this w) (\<lambda>a w.
       if i \<ge> count a then Throws out_of_range w
       else Returns (ptr_add (cached_data_ptr a) (int i)) w)"

definition index_op :: "nat \<Rightarrow> nat \<Rightarrow> 'a world \<Rightarrow> (pointer, 'a) outcome" where
  "index_op this i w =
     and_then (get this w) (\<lambda>a w.
       if \<not> i < count a then Undefined AssertionFailed
       else Returns (ptr_add (cached_data_ptr a) (int i)) w)"

definition front_op :: "nat \<Rightarrow> 'a world \<Rightarrow> (pointer, 'a) outcome" where
  "front_op this w =
     and_then (get this w) (\<lambda>a w.
       if count a = 0 then Undefined AssertionFailed
       else Returns (ptr_add (cached_data_ptr a) 0) w)"

definition back_op :: "nat \<Rightarrow> 'a world \<Rightarrow> (pointer, 'a) outcome" where
  "back_op this w =
     and_then (get this w) (\<lambda>a w.
       if count a = 0 then Undefined AssertionFailed
       else Returns (ptr_add (cached_data_ptr a) (int (count a - 1))) w)"

definition sbo_size :: "'a world \<Rightarrow> nat \<Rightarrow> nat option" where
  "sbo_size w this = map_option count (objs w this)"

definition sbo_capacity :: "'a world \<Rightarrow> nat \<Rightarrow> nat option" where
  "sbo_capacity w this = map_option capacity (objs w this)"

definition sbo_empty :: "'a world \<Rightarrow> nat \<Rightarrow> bool option" where
  "sbo_empty w this = map_option (\<lambda>a. count a = 0) (objs w this)"

definition using_stack_buffer :: "'a world \<Rightarrow> nat \<Rightarrow> bool option" where
  "using_stack_buffer w this = map_option (\<lambda>a. \<not> using_heap a) (objs w this)"

subsection \<open>Mutators\<close>

text \<open>
  \<open>PushBack_Copy\<close>, \<open>PushBack_Move\<close>, \<open>EmplaceBack\<close> and \<open>Insert\<close> receive a
  reference and read it after \<open>CheckSize\<close> (and \<open>Insert\<close> after it has shifted the
  elements): when the reference designates an element of this container, the slot may have
  been released or overwritten by then.
\<close>

definition Reserve :: "'a traits \<Rightarrow> nat \<Rightarrow> nat \<Rightarrow> 'a world \<Rightarrow> (unit, 'a) outcome" where
  "Reserve T this new_cap w =
     and_then (get this w) (\<lambda>a w.
       if new_cap > capacity a then Resize T this new_cap w else Returns () w)"

definition ShrinkToFit :: "'a traits \<Rightarrow> nat \<Rightarrow> 'a world \<Rightarrow> (unit, 'a) outcome" where
  "ShrinkToFit T this w =
     and_then (get this w) (\<lambda>a w.
       if count a < capacity a then Resize T this (count a) w else Returns () w)"

definition PushBack_Copy :: "'a traits \<Rightarrow> nat \<Rightarrow> 'a arg \<Rightarrow> 'a world \<Rightarrow> (unit, 'a) outcome" where
  "PushBack_Copy T this val w =
     and_then (CheckSize T this w) (\<lambda>_ w.
     and_then (get this w) (\<lambda>a w.
     and_then (Construct T (ptr_add (cached_data_ptr a) (int (count a))) val w) (\<lambda>_.
     modify this (\<lambda>a. a\<lparr>count := Suc (count a)\<rparr>))))"

definition PushBack_Move :: "'a traits \<Rightarrow> nat \<Rightarrow> 'a arg \<Rightarrow> 'a world \<Rightarrow> (unit, 'a) outcome" where
  "PushBack_Move T this val w =
     and_then (CheckSize T this w) (\<lambda>_ w.
     and_then (get this w) (\<lambda>a w.
     and_then (MoveConstruct T (ptr_add (cached_data_ptr a) (int (count a))) val w) (\<lambda>_.
     modify this (\<lambda>a. a\<lparr>count := Suc (count a)\<rparr>))))"

text \<open>
  \<open>EmplaceBack\<close>: \<open>new (data_ptr() + count_) T(std::forward<Args>(args)...)\<close>, with
  \<open>Value v\<close> for arguments from which the constructor makes \<open>v\<close> and \<open>Ref p\<close> for the
  single argument that designates the element at \<open>p\<close>.
\<close>

definition EmplaceBack :: "'a traits \<Rightarrow> nat \<Rightarrow> 'a arg \<Rightarrow> 'a world \<Rightarrow> (unit, 'a) outcome" where
  "EmplaceBack T this args w =
     and_then (CheckSize T this w) (\<lambda>_ w.
     and_then (get this w) (\<lambda>a w.
     and_then (case args of
                 Value v \<Rightarrow> new_at T (ptr_add (cached_data_ptr a) (int (count a))) v w
               | Ref p \<Rightarrow> new_from T (ptr_add (cached_data_ptr a) (int (count a))) p w) (\<lambda>_.
     modify this (\<lambda>a. a\<lparr>count := Suc (count a)\<rparr>))))"

definition PopBack :: "'a traits \<Rightarrow> nat \<Rightarrow> 'a world \<Rightarrow> (unit, 'a) outcome" where
  "PopBack T this w =
     and_then (get this w) (\<lambda>a w.
       if \<not> count a > 0 then Undefined AssertionFailed
       else
         and_then (if \<not> plain_old_data T
                   then destroy_at T (ptr_add (cached_data_ptr a) (int (count a - 1))) w
                   else Returns () w) (\<lambda>_.
         modify this (\<lambda>a. a\<lparr>count := count a - 1\<rparr>)))"

definition clear :: "'a traits \<Rightarrow> nat \<Rightarrow> 'a world \<Rightarrow> (unit, 'a) outcome" where
  "clear T this w =
     and_then (CallDestructors T this w) (\<lambda>_. modify this (\<lambda>a. a\<lparr>count := 0\<rparr>))"

subsection \<open>Iterator operations\<close>

definition compare_less :: "pointer \<Rightarrow> pointer \<Rightarrow> 'a world \<Rightarrow> (bool, 'a) outcome" where
  "compare_less p q w =
     (case ptr_less p q of None \<Rightarrow> Undefined UnrelatedPointers | Some r \<Rightarrow> Returns r w)"

definition subtract :: "pointer \<Rightarrow> pointer \<Rightarrow> 'a world \<Rightarrow> (int, 'a) outcome" where
  "subtract p q w =
     (case ptr_diff p q of None \<Rightarrow> Undefined UnrelatedPointers | Some d \<Rightarrow> Returns d w)"

definition Erase :: "'a traits \<Rightarrow> nat \<Rightarrow> pointer \<Rightarrow> 'a world \<Rightarrow> (pointer, 'a) outcome" where
  "Erase T this pos w =
     and_then (begin_it this w) (\<lambda>b w.
     and_then (end_it this w) (\<lambda>e w.
     and_then (compare_less pos b w) (\<lambda>before w.
     if before then Returns e w
     else
     and_then (compare_less pos e w) (\<lambda>inside w.
     if \<not> inside then Returns e w
     else
     and_then (if plain_old_data T then
                 and_then (get this w) (\<lambda>a w.
                 and_then (subtract pos b w) (\<lambda>d w.
                   let n = count a - nat d - 1
                   in if n > 0 then memmove T pos (ptr_add pos 1) n w else Returns () w))
               else
                 and_then (std_move T (ptr_add pos 1) e pos w) (\<lambda>_.
                   destroy_at T (ptr_add e (- 1)))) (\<lambda>_ w.
     and_then (modify this (\<lambda>a. a\<lparr>count := count a - 1\<rparr>) w) (\<lambda>_.
     Returns pos))))))"

definition EraseRange :: "'a traits \<Rightarrow> nat \<Rightarrow> pointer \<Rightarrow> pointer \<Rightarrow> 'a world \<Rightarrow> (pointer, 'a) outcome" where
  "EraseRange T this first lst w =
     and_then (begin_it this w) (\<lambda>b w.
     and_then (end_it this w) (\<lambda>e w.
     and_then (compare_less first b w) (\<lambda>c1 w.
     and_then (if c1 then Returns True w else compare_less e lst w) (\<lambda>c2 w.
     and_then (if c2 then Returns True w else compare_less lst first w) (\<lambda>c3 w.
     if c3 then Returns e w
     else if first = lst then Returns first w
     else
     and_then (subtract lst first w) (\<lambda>n w.
     and_then (std_move T lst e first w) (\<lambda>new_end w.
     and_then (if \<not> plain_old_data T then
                 and_then (subtract e new_end w) (\<lambda>k.
                   for_each [0..<nat k] (\<lambda>i. destroy_at T (ptr_add new_end (int i))))
               else Returns () w) (\<lambda>_ w.
     and_then (modify this (\<lambda>a. a\<lparr>count := count a - nat n\<rparr>) w) (\<lambda>_.
     Returns first)))))))))"

text \<open>
  \<open>Insert\<close>. \<open>size_t index = pos - begin()\<close> wraps for a position before \<open>begin()\<close>, and
  \<open>count_ - index\<close> wraps for one after \<open>end()\<close>: both leave the array. \<open>arg\<close> is
  read by \<open>Construct\<close>, after the shift.
\<close>

definition Insert :: "'a traits \<Rightarrow> nat \<Rightarrow> pointer \<Rightarrow> 'a arg \<Rightarrow> 'a world \<Rightarrow> (pointer, 'a) outcome" where
  "Insert T this pos arg w =
     and_then (begin_it this w) (\<lambda>b w.
     and_then (subtract pos b w) (\<lambda>index w.
     and_then (get this w) (\<lambda>a w.
     and_then (if count a = capacity a then CheckSize T this w else Returns () w) (\<lambda>_ w.
     and_then (begin_it this w) (\<lambda>b w.
     and_then (end_it this w) (\<lambda>e w.
     and_then (get this w) (\<lambda>a w.
     if index < 0 \<or> int (count a) < index then Undefined OutOfBounds
     else
       let pos = ptr_add b index in
       and_then (if plain_old_data T
                 then memmove T (ptr_add pos 1) pos (count a - nat index) w
                 else and_then (std_move_backward T pos e (ptr_add e 1) w) (\<lambda>_. Returns ())) (\<lambda>_ w.
       and_then (Construct T pos arg w) (\<lambda>_ w.
       and_then (modify this (\<lambda>a. a\<lparr>count := Suc (count a)\<rparr>) w) (\<lambda>_.
       Returns pos))))))))))"

subsection \<open>What a caller sees, and the invariant of the data model\<close>

text \<open>The slots that \<open>operator[]\<close> reaches for the indices below \<open>size()\<close>.\<close>

definition elements :: "'a traits \<Rightarrow> 'a world \<Rightarrow> nat \<Rightarrow> 'a slot list option" where
  "elements T w this =
     (case objs w this of
        None \<Rightarrow> None
      | Some a \<Rightarrow>
          if count a = 0 then Some []
          else (case cached_data_ptr a of
             Ptr b i \<Rightarrow>
               (case region T w b of
                  None \<Rightarrow> None
                | Some ss \<Rightarrow>
                    if 0 \<le> i \<and> nat i + count a \<le> length ss
                    then Some (take (count a) (drop (nat i) ss)) else None)
           | _ \<Rightarrow> None))"

text \<open>
  For a non-plain element type exactly the first \<open>count\<close> slots of the active storage hold
  objects.
\<close>

definition live_range :: "'a traits \<Rightarrow> nat \<Rightarrow> 'a slot list \<Rightarrow> bool" where
  "live_range T n ss =
     (plain_old_data T \<or>
      (list_all (\<lambda>s. s \<noteq> Raw) (take n ss) \<and> list_all (\<lambda>s. s = Raw) (drop n ss)))"

fun heap_block_of :: "'a Storage \<Rightarrow> nat option" where
  "heap_block_of (heap_ptr (Ptr (HeapBlock b) i)) = (if i = 0 then Some b else None)"
| "heap_block_of s = None"

text \<open>
  \<open>consistent\<close>: the mode flag, the union, the cached pointer and the store agree, and
  the count fits. \<open>valid\<close> adds the lower bound of the capacity: together the invariants
  of the data model.
\<close>

definition consistent :: "'a traits \<Rightarrow> 'a world \<Rightarrow> nat \<Rightarrow> bool" where
  "consistent T w this =
     (case objs w this of
        None \<Rightarrow> False
      | Some a \<Rightarrow>
          count a \<le> capacity a \<and> using_heap a = (size_threshold T < capacity a) \<and>
          (if using_heap a then
             (case heap_block_of (storage a) of
                None \<Rightarrow> False
              | Some b \<Rightarrow>
                  cached_data_ptr a = Ptr (HeapBlock b) 0 \<and> b < next_block w \<and>
                  (case heap w b of
                     None \<Rightarrow> False
                   | Some ss \<Rightarrow> length ss = capacity a \<and> live_range T (count a) ss))
           else
             cached_data_ptr a = Ptr (StackOf this) 0 \<and>
             length (stack_slots T (storage a)) = size_threshold T \<and>
             live_range T (count a) (stack_slots T (storage a))))"

definition valid :: "'a traits \<Rightarrow> 'a world \<Rightarrow> nat \<Rightarrow> bool" where
  "valid T w this =
     (consistent T w this \<and>
      (case objs w this of None \<Rightarrow> False | Some a \<Rightarrow> size_threshold T \<le> capacity a))"

subsection \<open>Example instances\<close>

text \<open>
  \<open>SboArray<int, 4>\<close>, \<open>SboArray<int, 2>\<close>, and a non-plain element type with threshold 2
  and with threshold 4 (a \<open>std::string\<close> of 32 bytes, say; \<open>zero_T\<close> is not read for
  it), and the empty store.
\<close>

definition int4 :: "int traits" where
  "int4 = \<lparr>size_threshold = 4, plain_old_data = True,
           trivially_default_constructible = True, default_T = 0, sizeof_T = 4, zero_T = 0,
           trivially_relocatable = True, moved_from = (\<lambda>v. v)\<rparr>"

definition int2 :: "int traits" where
  "int2 = \<lparr>size_threshold = 2, plain_old_data = True,
           trivially_default_constructible = True, default_T = 0, sizeof_T = 4, zero_T = 0,
           trivially_relocatable = True, moved_from = (\<lambda>v. v)\<rparr>"

text \<open>\<open>SboArray<int, 16777219>\<close>: a threshold that single precision cannot represent.\<close>

definition int_wide :: "int traits" where
  "int_wide = \<lparr>size_threshold = 16777219, plain_old_data = True,
               trivially_default_constructible = True, default_T = 0, sizeof_T = 4, zero_T = 0,
               trivially_relocatable = True, moved_from = (\<lambda>v. v)\<rparr>"

definition str2 :: "string traits" where
  "str2 = \<lparr>size_threshold = 2, plain_old_data = False,
           trivially_default_constructible = False, default_T = [], sizeof_T = 32,
           zero_T = [], trivially_relocatable = False, moved_from = (\<lambda>v. [])\<rparr>"

definition str4 :: "string traits" where
  "str4 = \<lparr>size_threshold = 4, plain_old_data = False,
           trivially_default_constructible = False, default_T = [], sizeof_T = 32,
           zero_T = [], trivially_relocatable = False, moved_from = (\<lambda>v. [])\<rparr>"

definition world0 :: "'a world" where
  "world0 = \<lparr>objs = (\<lambda>c. None), heap = (\<lambda>b. None), next_block = 0, oom = False\<rparr>"


text \<open>
  The store after \<open>SboArray<int, 4> a; a.push_back(1); a.push_back(2); a.push_back(3);\<close>
  and the store after the same calls on a \<open>SboArray<int, 2>\<close>, which has moved to the heap.
\<close>

definition obj_inline :: "int SboArray" where
  "obj_inline = \<lparr>storage = stack_buffer [Obj 1, Obj 2, Obj 3, Obj 0], count = 3, capacity = 4,
                  using_heap = False, cached_data_ptr = Ptr (StackOf 0) 0\<rparr>"

definition world_inline :: "int world" where
  "world_inline = world0\<lparr>objs := (\<lambda>c. None)(0 \<mapsto> obj_inline)\<rparr>"

definition obj_heap :: "int SboArray" where
  "obj_heap = \<lparr>storage = heap_ptr (Ptr (HeapBlock 0) 0), count = 3, capacity = 4,
                using_heap = True, cached_data_ptr = Ptr (HeapBlock 0) 0\<rparr>"

definition world_heap :: "int world" where
  "world_heap = world0\<lparr>objs := (\<lambda>c. None)(0 \<mapsto> obj_heap),
                       heap := (\<lambda>b. None)(0 \<mapsto> [Obj 1, Obj 2, Obj 3, Raw]),
                       next_block := 1\<rparr>"

text \<open>A run of member calls on one object, stopping at the first that does not return.\<close>

fun calls :: "('a world \<Rightarrow> (unit, 'a) outcome) list \<Rightarrow> 'a world \<Rightarrow> (unit, 'a) outcome" where
  "calls [] w = Returns () w"
| "calls (f # fs) w = and_then (f w) (\<lambda>_. calls fs)"

text \<open>What \<open>size()\<close> and \<open>capacity()\<close> say after a run that returned.\<close>

definition size_after :: "(unit, 'a) outcome \<Rightarrow> nat \<Rightarrow> nat option" where
  "size_after r this = (case r of Returns _ w \<Rightarrow> sbo_size w this | _ \<Rightarrow> None)"

definition capacity_after :: "(unit, 'a) outcome \<Rightarrow> nat \<Rightarrow> nat option" where
  "capacity_after r this = (case r of Returns _ w \<Rightarrow> sbo_capacity w this | _ \<Rightarrow> None)"

text \<open>The store after \<open>SboArray<int, 2> a; a.push_back(1); a.push_back(2);\<close>: a full buffer.\<close>

definition obj_full :: "int SboArray" where
  "obj_full = \<lparr>storage = stack_buffer [Obj 1, Obj 2], count = 2, capacity = 2,
                using_heap = False, cached_data_ptr = Ptr (StackOf 0) 0\<rparr>"

definition world_full :: "int world" where
  "world_full = world0\<lparr>objs := (\<lambda>c. None)(0 \<mapsto> obj_full)\<rparr>"


section \<open>Evaluating the model\<close>

lemma replicate_numeral: "replicate (numeral n) x = x # replicate (pred_numeral n) x"
  by (simp add: numeral_eq_Suc)

lemma list_update_numeral: "(x # xs)[numeral n := y] = x # xs[pred_numeral n := y]"
  by (simp add: numeral_eq_Suc)

lemmas run_defs =
  stack_slots_def read_heap_ptr_def load_def store_def new_at_def new_from_def destroy_at_def
  move_assign_def memmove_def ranges_overlap_def memcpy_def std_move_def std_move_backward_def
  get_def modify_def member_init_def create_def UpdateDataPointer_def data_ptr_def begin_it_def
  end_it_def Malloc_def Construct_def MoveConstruct_def CopyElements_def MoveElements_def
  CallDestructors_def Resize_def to_float_def growth_factor_def CheckSize_def copy_bytes_def
  Swap_def
  ContainerConstructor_def ContainerConstructor_Size_def ContainerConstructor_SizeValue_def
  ContainerConstructor_Copy_def ContainerConstructor_Move_def ContainerConstructor_List_def
  ContainerDestructor_def leave_scope_def ContainerAssignment_Copy_def
  ContainerAssignment_Move_def At_def index_op_def front_op_def back_op_def sbo_size_def
  sbo_capacity_def sbo_empty_def using_stack_buffer_def Reserve_def ShrinkToFit_def
  PushBack_Copy_def PushBack_Move_def EmplaceBack_def PopBack_def clear_def compare_less_def
  subtract_def ptr_less_def Erase_def EraseRange_def Insert_def elements_def live_range_def
  consistent_def valid_def int4_def int2_def str2_def str4_def world0_def Let_def obj_inline_def
  world_inline_def obj_heap_def world_heap_def obj_full_def world_full_def size_after_def
  capacity_after_def replicate_numeral list_update_numeral

lemma world_inline_run:
  "calls [ContainerConstructor int4 0, PushBack_Copy int4 0 (Value 1), PushBack_Copy int4 0 (Value 2),
          PushBack_Copy int4 0 (Value 3)] world0 = Returns () world_inline"
  by (simp add: run_defs) (simp add: numeral_3_eq_3)

lemma world_heap_run:
  "calls [ContainerConstructor int2 0, PushBack_Copy int2 0 (Value 1), PushBack_Copy int2 0 (Value 2),
          PushBack_Copy int2 0 (Value 3)] world0 = Returns () world_heap"
  by (simp add: run_defs) (simp add: numeral_3_eq_3)

lemma valid_world_inline: "valid int4 world_inline 0"
  by (simp add: run_defs)

lemma valid_world_heap: "valid int2 world_heap 0"
  by (simp add: run_defs)

lemma world_full_run:
  "calls [ContainerConstructor int2 0, PushBack_Copy int2 0 (Value 1), PushBack_Copy int2 0 (Value 2)] world0
     = Returns () world_full"
  by (simp add: run_defs) (simp add: numeral_2_eq_2)

lemma valid_world_full: "valid int2 world_full 0"
  by (simp add: run_defs)

section \<open>The invariants after the constructors\<close>

text \<open>
  Claim C1 says that after every public operation, starting from any constructor,
  \<open>size() \<le> capacity()\<close>, \<open>capacity() \<ge> threshold\<close> and
  \<open>using_stack_buffer() = (capacity() \<le> threshold)\<close>. The code breaks it in two
  constructors. \<open>SboArray<int, 4> a(5)\<close> returns with capacity 5 and the inline buffer
  still active: \<open>ContainerConstructor_Size\<close> never sets \<open>using_heap_\<close> and never
  allocates. \<open>SboArray<int, 4> a{1, 2}\<close> returns with capacity 2, below the threshold 4:
  \<open>ContainerConstructor_List\<close> takes the capacity from the list.
\<close>

theorem constructors_break_invariants:
  "(\<exists>w. ContainerConstructor_Size int4 0 5 world0 = Returns () w \<and>
        sbo_size w 0 = Some 5 \<and> sbo_capacity w 0 = Some 5 \<and>
        using_stack_buffer w 0 = Some True \<and> size_threshold int4 = 4) \<and>
   (\<exists>w. ContainerConstructor_List int4 0 [1, 2] world0 = Returns () w \<and>
        sbo_size w 0 = Some 2 \<and> sbo_capacity w 0 = Some 2 \<and> size_threshold int4 = 4)"
  by (simp add: run_defs)

section \<open>Constructor and destructor calls of a non-plain element type\<close>

text \<open>
  Claim C2 says that every slot in which an element is constructed gets exactly one
  destructor call, and that no destructor runs on a slot that is not live. The third
  \<open>push_back\<close> on a \<open>SboArray<std::string, 2>\<close> relocates: \<open>MoveElements\<close> moves each
  element out of the inline buffer and destroys it there, and \<open>Resize\<close> then calls
  \<open>CallDestructors\<close>, which runs the destructor on the same slots again.
\<close>

theorem relocation_destroys_twice:
  "calls [ContainerConstructor str2 0, PushBack_Copy str2 0 (Value ''a''), PushBack_Copy str2 0 (Value ''b''),
          PushBack_Copy str2 0 (Value ''c'')] world0 = Undefined DestroyedDead"
  by (simp add: run_defs)

section \<open>Allocation failure\<close>

text \<open>
  Claim C4 says that a failure of the allocator during a reallocation reaches the caller
  and leaves the container as it was. For a plain element type \<open>Malloc\<close> calls \<open>malloc\<close>
  and nothing tests the result: the fifth \<open>push_back\<close> below moves the elements to the
  null pointer, and \<open>reserve(5)\<close> on an empty container returns normally with capacity 5,
  heap mode and a null data pointer.
\<close>

theorem malloc_failure_not_reported:
  "calls [PushBack_Copy int2 0 (Value 4), PushBack_Copy int2 0 (Value 5)] (world_heap\<lparr>oom := True\<rparr>)
     = Undefined BadPointer \<and>
   (\<exists>w. calls [ContainerConstructor int2 0, Reserve int2 0 5] (world0\<lparr>oom := True\<rparr>)
          = Returns () w \<and>
        sbo_capacity w 0 = Some 5 \<and> using_stack_buffer w 0 = Some False \<and>
        map_option cached_data_ptr (objs w 0) = Some nullptr)"
  by (simp add: run_defs)

section \<open>Reserve\<close>

text \<open>
  Claim C5 says that \<open>reserve(n)\<close> with \<open>n > capacity()\<close> leaves the size and the
  element values unchanged, for every container. \<open>SboArray<std::string, 4> a{s}\<close> (\<open>s\<close>
  a string of 34 characters) has capacity 1, as the list constructor takes the capacity
  from the list. \<open>a.reserve(2)\<close> then calls \<open>Resize(2)\<close>, which stays in the inline
  buffer: \<open>MoveElements\<close> finds \<open>dest == src\<close> and returns, and \<open>CallDestructors\<close>
  destroys the element all the same. The container reports size 1 and capacity 4, and
  its only element has been destroyed; the destructor of the container destroys that slot
  once more.
\<close>

theorem reserve_destroys_live_element:
  "\<exists>w1 w2. ContainerConstructor_List str4 0 [''a string of thirty-four characters''] world0
              = Returns () w1 \<and>
      sbo_size w1 0 = Some 1 \<and> sbo_capacity w1 0 = Some 1 \<and>
      elements str4 w1 0 = Some [Obj ''a string of thirty-four characters''] \<and>
      Reserve str4 0 2 w1 = Returns () w2 \<and>
      sbo_size w2 0 = Some 1 \<and> sbo_capacity w2 0 = Some 4 \<and>
      elements str4 w2 0 = Some [Raw] \<and>
      ContainerDestructor str4 0 w2 = Undefined DestroyedDead"
  by (simp add: run_defs)

text \<open>
  \<open>Reserve\<close> does not test its request either. With 1, 2, 3 in a \<open>SboArray<int, 2>\<close>,
  \<open>reserve(SIZE_MAX / 4 + 2)\<close> asks \<open>Malloc\<close> for \<open>(2^62 + 1) * 4\<close> bytes, which is 4
  in \<open>size_t\<close>, and moves the three elements into a block that has room for one.
\<close>

lemma reserve_request_wraps:
  "Reserve int2 0 4611686018427387905 world_heap = Undefined OutOfBounds"
  by (simp add: run_defs)

section \<open>Insert\<close>

text \<open>
  Claim C6 says that \<open>insert(pos, v)\<close> places \<open>v\<close> at \<open>pos\<close> and keeps the order of the
  other elements, for every container. For a non-plain element type \<open>Insert\<close> opens the
  gap with \<open>std::move_backward(pos, end(), end() + 1)\<close>, whose first step assigns to the
  slot at \<open>end()\<close>, where no object has been constructed.
\<close>

theorem insert_assigns_to_raw_slot:
  "and_then (calls [ContainerConstructor str2 0, PushBack_Copy str2 0 (Value ''a'')] world0)
     (\<lambda>_. Insert str2 0 (Ptr (StackOf 0) 0) (Value ''z'')) = Undefined AssignedDead"
  by (simp add: run_defs)

text \<open>
  For a plain element type \<open>Insert\<close> reads its argument after the \<open>memmove\<close>:
  \<open>a.insert(a.begin(), a[1])\<close> on 1, 2, 3 inserts the 1 that the shift has put into
  the slot, and not the 2 that \<open>a[1]\<close> was when the call began.
\<close>

lemma insert_of_own_element:
  "\<exists>w. Insert int4 0 (Ptr (StackOf 0) 0) (Ref (Ptr (StackOf 0) 1)) world_inline
         = Returns (Ptr (StackOf 0) 0) w \<and>
       elements int4 w 0 = Some [Obj 1, Obj 1, Obj 2, Obj 3]"
  by (simp add: run_defs)

section \<open>Move construction\<close>

text \<open>
  Claim C9 says that after a move the source is empty and inline, the target holds the
  elements, and the two never own the same heap block. After \<open>SboArray b(std::move(a))\<close>
  with \<open>a\<close> in heap mode, \<open>a\<close> reports size 0 and the inline buffer, but its cached data
  pointer still is the block that \<open>b\<close> took: the last \<open>UpdateDataPointer()\<close> of
  \<open>ContainerConstructor_Move\<close> refreshes \<open>b\<close>, not \<open>a\<close>. \<open>a.push_back(9)\<close> then writes
  into the block of \<open>b\<close>.
\<close>

theorem moved_from_source_aliases_block:
  "\<exists>w1 w2. ContainerConstructor_Move int2 1 0 world_heap = Returns () w1 \<and>
      sbo_size w1 0 = Some 0 \<and> using_stack_buffer w1 0 = Some True \<and>
      elements int2 w1 1 = Some [Obj 1, Obj 2, Obj 3] \<and>
      map_option cached_data_ptr (objs w1 0) = Some (Ptr (HeapBlock 0) 0) \<and>
      map_option cached_data_ptr (objs w1 1) = Some (Ptr (HeapBlock 0) 0) \<and>
      PushBack_Copy int2 0 (Value 9) w1 = Returns () w2 \<and>
      elements int2 w2 1 = Some [Obj 9, Obj 2, Obj 3]"
  by (simp add: run_defs)

section \<open>Checked access\<close>

lemma nat_int_pred: "0 < n \<Longrightarrow> nat (int n - 1) = n - 1"
  by arith

lemma last_take_nth: "0 < n \<Longrightarrow> n \<le> length xs \<Longrightarrow> last (take n xs) = xs ! (n - 1)"
proof -
  assume n: "0 < n" "n \<le> length xs"
  then have "take n xs \<noteq> []" by auto
  then have "last (take n xs) = take n xs ! (length (take n xs) - 1)" by (rule last_conv_nth)
  also have "\<dots> = xs ! (n - 1)" using n by (simp add: min_absorb2)
  finally show ?thesis .
qed

text \<open>
  Claim C8: \<open>at(i)\<close> throws \<open>out_of_range\<close> exactly when \<open>i \<ge> size()\<close> and leaves the
  store as it was; otherwise it returns the slot \<open>i\<close> of the data pointer, and on a
  non-empty container \<open>at(size() - 1)\<close> is the last element.
\<close>

theorem at_checked:
  assumes "objs w this = Some a"
  shows "(count a \<le> i \<longrightarrow> At this i w = Throws out_of_range w) \<and>
         (i < count a \<longrightarrow> At this i w = Returns (ptr_add (cached_data_ptr a) (int i)) w) \<and>
         (consistent T w this \<and> 0 < count a \<longrightarrow>
            (\<exists>es. elements T w this = Some es \<and> length es = count a \<and>
                  and_then (At this (count a - 1) w) (load T) = Returns (last es) w))"
proof -
  have "\<exists>es. elements T w this = Some es \<and> length es = count a \<and>
                  and_then (At this (count a - 1) w) (load T) = Returns (last es) w"
    if c: "consistent T w this" and n: "0 < count a"
  proof (cases "using_heap a")
    case True
    then show ?thesis using c n assms
      by (auto simp: consistent_def elements_def At_def get_def load_def last_take_nth
          nat_int_pred split: option.splits)
  next
    case False
    then show ?thesis using c n assms
      by (auto simp: consistent_def elements_def At_def get_def load_def last_take_nth
          nat_int_pred split: option.splits)
  qed
  then show ?thesis using assms by (auto simp: At_def get_def)
qed

theorem at_checked_witness:
  "objs world_inline 0 = Some obj_inline \<and> consistent int4 world_inline 0 \<and>
   At 0 3 world_inline = Throws out_of_range world_inline \<and>
   At 0 1 world_inline = Returns (Ptr (StackOf 0) 1) world_inline \<and>
   and_then (At 0 2 world_inline) (load int4) = Returns (Obj 3) world_inline"
proof -
  have o: "objs world_inline 0 = Some obj_inline" by (simp add: world_inline_def)
  have c: "consistent int4 world_inline 0" using valid_world_inline by (simp add: valid_def)
  have n: "count obj_inline = 3" "cached_data_ptr obj_inline = Ptr (StackOf 0) 0"
    by (simp_all add: obj_inline_def)
  have e: "elements int4 world_inline 0 = Some [Obj 1, Obj 2, Obj 3]"
    by (simp add: run_defs)
  from at_checked [OF o, of 3 int4] at_checked [OF o, of 1 int4] o c n e
  show ?thesis by auto
qed

section \<open>Self-assignment\<close>

lemma consistent_obj: "consistent T w this \<Longrightarrow> \<exists>a. objs w this = Some a"
  by (auto simp: consistent_def split: option.splits)

lemma heap_block_of_Some: "heap_block_of s = Some b \<Longrightarrow> s = heap_ptr (Ptr (HeapBlock b) 0)"
  by (cases s rule: heap_block_of.cases) (auto split: if_splits)

lemma consistent_synced:
  assumes "consistent T w this" "objs w this = Some a"
  shows "cached_data_ptr a =
           (if \<not> using_heap a then Ptr (StackOf this) 0 else read_heap_ptr (storage a))"
  using assms
  by (auto simp: consistent_def read_heap_ptr_def split: option.splits dest!: heap_block_of_Some)

lemma UpdateDataPointer_consistent:
  assumes "consistent T w this"
  shows "UpdateDataPointer T this w = Returns () w"
proof -
  from assms obtain a where a: "objs w this = Some a" using consistent_obj by blast
  have "a\<lparr>cached_data_ptr :=
            (if \<not> using_heap a then Ptr (StackOf this) 0 else read_heap_ptr (storage a))\<rparr> = a"
    using consistent_synced[OF assms a] by simp
  moreover have "(objs w)(this \<mapsto> a) = objs w" using a by (simp add: fun_upd_idem)
  ultimately show ?thesis using a by (simp add: UpdateDataPointer_def modify_def)
qed

text \<open>
  Both assignments test \<open>this != &rhs\<close> and, for a container assigned to itself, only
  refresh the cached data pointer: size, capacity and mode stay as they were, and so does
  the whole store when the cached pointer agreed with the storage before.
\<close>

lemma self_assignment_synced:
  assumes "objs w this = Some a"
  shows "\<exists>w'. ContainerAssignment_Copy T tmp this this w = Returns () w' \<and>
              ContainerAssignment_Move T this this w = Returns () w' \<and>
              sbo_size w' this = sbo_size w this \<and>
              sbo_capacity w' this = sbo_capacity w this \<and>
              using_stack_buffer w' this = using_stack_buffer w this \<and>
              (count a = 0 \<or> consistent T w this \<longrightarrow>
                 elements T w' this = elements T w this) \<and>
              (consistent T w this \<longrightarrow> w' = w)"
proof (cases "consistent T w this")
  case True
  then show ?thesis
    by (simp add: ContainerAssignment_Copy_def ContainerAssignment_Move_def
        UpdateDataPointer_consistent)
next
  case False
  then show ?thesis using assms
    by (simp add: ContainerAssignment_Copy_def ContainerAssignment_Move_def
        UpdateDataPointer_def modify_def sbo_size_def sbo_capacity_def using_stack_buffer_def
        elements_def)
qed

text \<open>
  Claim C10 says that copy-assigning or move-assigning a container to itself leaves its
  size, capacity, storage mode and element values unchanged, for every container. Let
  \<open>a\<close> be a \<open>SboArray<int, 2>\<close> holding 1, 2, 3 in a heap block. After
  \<open>SboArray<int, 2> b(std::move(a)); a.push_back(9);\<close> the container \<open>a\<close> has size 1
  and reads its element through the stale pointer to the block that \<open>b\<close> took (the defect
  of C9): \<open>a[0]\<close> is 9. \<open>a = a\<close> then calls \<open>UpdateDataPointer()\<close>, which points
  \<open>a\<close> at its inline buffer: \<open>a[0]\<close> now is whatever the buffer holds, and no longer 9.
  Size, capacity and mode are unchanged.
\<close>

theorem self_assignment_changes_element:
  "\<exists>w1 w2 w3. ContainerConstructor_Move int2 1 0 world_heap = Returns () w1 \<and>
      PushBack_Copy int2 0 (Value 9) w1 = Returns () w2 \<and>
      sbo_size w2 0 = Some 1 \<and> elements int2 w2 0 = Some [Obj 9] \<and>
      ContainerAssignment_Copy int2 2 0 0 w2 = Returns () w3 \<and>
      ContainerAssignment_Move int2 0 0 w2 = Returns () w3 \<and>
      sbo_size w3 0 = Some 1 \<and> sbo_capacity w3 0 = sbo_capacity w2 0 \<and>
      using_stack_buffer w3 0 = using_stack_buffer w2 0 \<and>
      elements int2 w3 0 = Some [Raw]"
  by (simp add: run_defs)


section \<open>Loops and regions\<close>

lemma and_then_assoc:
  "and_then (and_then m f) g = and_then m (\<lambda>r w. and_then (f r w) g)"
  by (cases m) auto


lemma region_set_region:
  "region T w b \<noteq> None \<Longrightarrow> region T (set_region b ss w) b = Some ss"
  by (cases b) (auto simp: stack_slots_def)

lemma set_region_twice:
  "set_region b ss (set_region b ss' w) = set_region b ss w"
  by (cases b) (auto simp: option.map_comp comp_def)





lemma consistent_region:
  assumes "consistent T w this" "objs w this = Some a"
  obtains b S where "cached_data_ptr a = Ptr b 0" "region T w b = Some S"
    "count a \<le> length S" "live_range T (count a) S"
    "b = StackOf this \<and> \<not> using_heap a \<and> length S = size_threshold T \<or>
     (\<exists>k. b = HeapBlock k \<and> using_heap a \<and> storage a = heap_ptr (Ptr b 0) \<and> k < next_block w \<and> length S = capacity a)"
proof (cases "using_heap a")
  case True
  then show ?thesis using assms that
    by (auto simp: consistent_def split: option.splits dest!: heap_block_of_Some)
next
  case False
  then show ?thesis using assms that[of "StackOf this" "stack_slots T (storage a)"]
    by (auto simp: consistent_def split: option.splits)
qed










lemma objs_set_region:
  "objs (set_region b ss w) c =
     (if b = StackOf c then map_option (\<lambda>a. a\<lparr>storage := stack_buffer ss\<rparr>) (objs w c)
      else objs w c)"
  by (cases b) auto

lemma region_set_region_other:
  "b' \<noteq> b \<Longrightarrow> region T (set_region b ss w) b' = region T w b'"
  by (cases b; cases b') auto

lemma set_region_fields [simp]:
  "next_block (set_region b ss w) = next_block w" "oom (set_region b ss w) = oom w"
  by (cases b; simp)+

lemma region_header_update:
  assumes "objs w this = Some a" "storage a' = storage a"
  shows "region T (w\<lparr>objs := (objs w)(this \<mapsto> a')\<rparr>) b = region T w b"
  using assms by (cases b) auto

lemma elements_region:
  assumes "objs w this = Some a" "cached_data_ptr a = Ptr b 0" "region T w b = Some S"
    "count a \<le> length S"
  shows "elements T w this = Some (take (count a) S)"
  using assms by (auto simp: elements_def)

lemma consistentI:
  assumes "objs w this = Some a" "count a \<le> capacity a"
    "using_heap a = (size_threshold T < capacity a)"
    "cached_data_ptr a = Ptr b 0" "region T w b = Some S" "live_range T (count a) S"
    "b = StackOf this \<and> \<not> using_heap a \<and> length S = size_threshold T \<or>
     (\<exists>k. b = HeapBlock k \<and> using_heap a \<and> storage a = heap_ptr (Ptr b 0) \<and>
          k < next_block w \<and> length S = capacity a)"
  shows "consistent T w this"
  using assms by (auto simp: consistent_def)

lemma consistent_header:
  assumes "consistent T w this" "objs w this = Some a"
  shows "count a \<le> capacity a" "using_heap a = (size_threshold T < capacity a)"
  using assms by (auto simp: consistent_def split: option.splits if_splits)



lemma region_written:
  assumes "region T w b = Some S" "objs w this = Some a"
  shows "region T (set_region b S' w) b = Some S'"
    and "\<exists>a1. objs (set_region b S' w) this = Some a1 \<and> count a1 = count a \<and>
           capacity a1 = capacity a \<and> using_heap a1 = using_heap a \<and>
           cached_data_ptr a1 = cached_data_ptr a \<and> (b \<noteq> StackOf this \<longrightarrow> a1 = a)"
  using assms by (auto simp: region_set_region objs_set_region)





section \<open>Growth for plain element types\<close>

lemma to_float_small: "n < 2 ^ 24 \<Longrightarrow> to_float n = n"
  by (simp add: to_float_def)

lemma bit_length_bound: "0 < n \<Longrightarrow> 2 ^ (bit_length n - 1) \<le> n"
proof (induction n rule: bit_length.induct)
  case (1 n)
  show ?case
  proof (cases "n div 2 = 0")
    case True
    then have "bit_length n = 1" using 1(2)
      by (simp add: bit_length.simps[of n] bit_length.simps[of 0])
    then show ?thesis using 1(2) by simp
  next
    case False
    then have ih: "2 ^ (bit_length (n div 2) - 1) \<le> n div 2" using 1 by simp
    have pos: "0 < bit_length (n div 2)" using False by (simp add: bit_length.simps[of "n div 2"])
    have "bit_length n - 1 = Suc (bit_length (n div 2) - 1)"
      using 1(2) pos by (simp add: bit_length.simps[of n])
    then have "(2::nat) ^ (bit_length n - 1) = 2 * 2 ^ (bit_length (n div 2) - 1)" by simp
    also have "\<dots> \<le> 2 * (n div 2)" using ih by simp
    also have "\<dots> \<le> n" by simp
    finally show ?thesis .
  qed
qed

lemma to_float_more_than_half: 
  assumes "0 < n" shows "n < 2 * to_float n"
proof (cases "n < 2 ^ 24")
  case True
  then show ?thesis using assms by (simp add: to_float_small)
next
  case False
  define e where "e = bit_length n - 24"
  define q where "q = n div 2 ^ e"
  have "e \<le> bit_length n - 1" by (simp add: e_def)
  then have "(2::nat) ^ e \<le> 2 ^ (bit_length n - 1)" by (simp add: power_increasing)
  then have le: "2 ^ e \<le> n" using bit_length_bound[OF assms] by (rule order_trans)
  then have q1: "1 \<le> q" by (simp add: q_def div_greater_zero_iff Suc_le_eq)
  have m: "n mod 2 ^ e < 2 ^ e" by simp
  have "n = q * 2 ^ e + n mod 2 ^ e" unfolding q_def by (rule div_mult_mod_eq[symmetric])
  then have "n < q * 2 ^ e + 2 ^ e" using m by linarith
  moreover have "(2::nat) ^ e \<le> q * 2 ^ e" using q1 by (cases q) auto
  ultimately have "n < 2 * (q * 2 ^ e)" by linarith
  moreover have "q * 2 ^ e \<le> to_float n"
    using False by (simp add: to_float_def Let_def e_def q_def)
  ultimately show ?thesis by simp
qed

lemma slots_fit: "0 < s \<Longrightarrow> n * s < 2 ^ 64 \<Longrightarrow> n * s mod 2 ^ 64 div s = (n::nat)"
  by simp

lemma Resize_plain:
  assumes c: "consistent T w this" and p: "plain_old_data T" and m: "\<not> oom w"
    and a: "objs w this = Some a" and s: "0 < sizeof_T T"
    and fit: "max new_cap (size_threshold T) * sizeof_T T < 2 ^ 64"
  shows "\<exists>w'. Resize T this new_cap w = Returns () w' \<and> consistent T w' this \<and>
         sbo_capacity w' this = Some (max new_cap (size_threshold T)) \<and>
         sbo_size w' this = Some (min (count a) (max new_cap (size_threshold T))) \<and>
         elements T w' this =
           map_option (take (min (count a) (max new_cap (size_threshold T)))) (elements T w this) \<and>
         oom w' = oom w \<and> (\<forall>c. c \<noteq> this \<longrightarrow> objs w' c = objs w c)"
proof (cases "using_heap a")
  case True
  then obtain b ss where b: "storage a = heap_ptr (Ptr (HeapBlock b) 0)" "cached_data_ptr a = Ptr (HeapBlock b) 0"
     "b < next_block w" "heap w b = Some ss" "length ss = capacity a" "count a \<le> capacity a" "size_threshold T < capacity a"
    using c a by (auto simp: consistent_def split: option.splits dest!: heap_block_of_Some)
  show ?thesis
  proof (cases "size_threshold T < max new_cap (size_threshold T)")
    case will: True
    then have mx: "max new_cap (size_threshold T) = new_cap" by simp
    have sl: "new_cap * sizeof_T T mod 18446744073709551616 div sizeof_T T = new_cap"
      using slots_fit[OF s, of new_cap] fit mx by simp
    show ?thesis using True will b a p m sl
      apply (simp add: Resize_def get_def Let_def UpdateDataPointer_def modify_def data_ptr_def read_heap_ptr_def
          Malloc_def MoveElements_def memmove_def CallDestructors_def sbo_capacity_def sbo_size_def elements_def consistent_def live_range_def mx)
      apply (auto simp: min_def stack_slots_def split: if_splits)
      done
  next
    case will: False
    show ?thesis using True will b a p m
      apply (simp add: Resize_def get_def Let_def UpdateDataPointer_def modify_def data_ptr_def read_heap_ptr_def
          Malloc_def MoveElements_def memmove_def CallDestructors_def sbo_capacity_def sbo_size_def elements_def consistent_def live_range_def stack_slots_def)
      apply (auto simp: min_def max_def stack_slots_def split: if_splits)
      done
  qed
next
  case False
  then have b: "cached_data_ptr a = Ptr (StackOf this) 0" "length (stack_slots T (storage a)) = size_threshold T"
     "count a \<le> capacity a" "capacity a \<le> size_threshold T"
    using c a by (auto simp: consistent_def split: option.splits)
  show ?thesis
  proof (cases "size_threshold T < max new_cap (size_threshold T)")
    case will: True
    then have mx: "max new_cap (size_threshold T) = new_cap" by simp
    have sl: "new_cap * sizeof_T T mod 18446744073709551616 div sizeof_T T = new_cap"
      using slots_fit[OF s, of new_cap] fit mx by simp
    show ?thesis using False will b a p m sl
      by (simp add: Resize_def get_def Let_def UpdateDataPointer_def modify_def data_ptr_def
          read_heap_ptr_def Malloc_def MoveElements_def memmove_def CallDestructors_def
          sbo_capacity_def sbo_size_def elements_def consistent_def live_range_def mx)
  next
    case will: False
    show ?thesis using False will b a p m
      apply (simp add: Resize_def get_def Let_def UpdateDataPointer_def modify_def data_ptr_def read_heap_ptr_def
          Malloc_def MoveElements_def memmove_def CallDestructors_def sbo_capacity_def sbo_size_def elements_def consistent_def live_range_def)
      apply (auto simp: min_def max_def stack_slots_def split: if_splits)
      done
  qed
qed

lemma consistent_capacity:
  assumes "consistent T w this" "objs w this = Some a" "cached_data_ptr a = Ptr b 0"
    "region T w b = Some S"
  shows "capacity a \<le> length S"
  using assms
  by (cases "using_heap a")
     (auto simp: consistent_def split: option.splits dest!: heap_block_of_Some)

lemma consistent_elements:
  assumes "consistent T w this" "objs w this = Some a"
  shows "\<exists>es. elements T w this = Some es \<and> length es = count a"
proof -
  from consistent_region[OF assms] obtain b S where
    "cached_data_ptr a = Ptr b 0" "region T w b = Some S" "count a \<le> length S" by blast
  then show ?thesis using elements_region[OF assms(2)] by auto
qed

lemma CheckSize_plain:
  assumes c: "consistent T w this" and p: "plain_old_data T" and m: "\<not> oom w"
    and a: "objs w this = Some a" and s: "0 < sizeof_T T"
    and fit: "count a = capacity a \<longrightarrow>
                max (if capacity a = 0 then to_float (size_threshold T)
                     else to_float (capacity a) * growth_factor) (size_threshold T) * sizeof_T T
                  < 2 ^ 64"
  shows "\<exists>w'. CheckSize T this w = Returns () w' \<and> consistent T w' this \<and>
           sbo_capacity w' this =
             Some (if count a = capacity a
                   then max (if capacity a = 0 then to_float (size_threshold T)
                             else to_float (capacity a) * growth_factor) (size_threshold T)
                   else capacity a) \<and>
           sbo_size w' this = Some (count a) \<and> elements T w' this = elements T w this \<and>
           oom w' = oom w \<and> (\<forall>c. c \<noteq> this \<longrightarrow> objs w' c = objs w c)"
proof (cases "count a = capacity a")
  case False
  then show ?thesis using a c by (simp add: CheckSize_def get_def sbo_capacity_def sbo_size_def)
next
  case True
  define n where "n = (if capacity a = 0 then to_float (size_threshold T)
                             else to_float (capacity a) * growth_factor)"
  have fit': "max n (size_threshold T) * sizeof_T T < 2 ^ 64"
    using fit True by (simp add: n_def)
  have "max n (size_threshold T) * 1 \<le> max n (size_threshold T) * sizeof_T T"
    using s by (intro mult_le_mono2) simp
  then have small: "n < 2 ^ 64" using fit' by simp
  have le: "count a \<le> max n (size_threshold T)"
  proof (cases "capacity a = 0")
    case True
    then show ?thesis using \<open>count a = capacity a\<close> by simp
  next
    case False
    then have "capacity a < 2 * to_float (capacity a)" by (intro to_float_more_than_half) simp
    then show ?thesis using False True by (simp add: n_def growth_factor_def max_def)
  qed
  from consistent_elements[OF c a] obtain es where
    es: "elements T w this = Some es" "length es = count a" by blast
  from Resize_plain[OF c p m a s fit'] obtain w' where
    w': "Resize T this n w = Returns () w'" "consistent T w' this"
      "sbo_capacity w' this = Some (max n (size_threshold T))"
      "sbo_size w' this = Some (min (count a) (max n (size_threshold T)))"
      "elements T w' this =
           map_option (take (min (count a) (max n (size_threshold T)))) (elements T w this)"
      "oom w' = oom w" "\<forall>c. c \<noteq> this \<longrightarrow> objs w' c = objs w c"
    by blast
  have "CheckSize T this w =
          (if n < 2 ^ 64 then Resize T this n w else Undefined FloatOverflow)"
    using True a by (simp add: CheckSize_def get_def Let_def n_def)
  then have "CheckSize T this w = Returns () w'" using small w'(1) by simp
  then show ?thesis
    using w' le es True by (auto simp: n_def min_absorb1)
qed

lemma plain_commit:
  assumes c: "consistent T w this" and a: "objs w this = Some a" and p: "plain_old_data T"
    and b: "cached_data_ptr a = Ptr b 0" and r: "region T w b = Some S"
    and len: "length S' = length S" and n: "g (count a) \<le> capacity a"
  shows "\<exists>w'. modify this (\<lambda>x. x\<lparr>count := g (count x)\<rparr>) (set_region b S' w) = Returns () w' \<and>
           consistent T w' this \<and> sbo_size w' this = Some (g (count a)) \<and>
           sbo_capacity w' this = Some (capacity a) \<and>
           using_stack_buffer w' this = using_stack_buffer w this \<and>
           elements T w' this = Some (take (g (count a)) S') \<and>
           oom w' = oom w \<and> (\<forall>c. c \<noteq> this \<longrightarrow> objs w' c = objs w c)"
proof -
  from consistent_region[OF c a] b r have
    own: "b = StackOf this \<and> \<not> using_heap a \<and> length S = size_threshold T \<or>
     (\<exists>k. b = HeapBlock k \<and> using_heap a \<and> storage a = heap_ptr (Ptr b 0) \<and>
          k < next_block w \<and> length S = capacity a)"
    by (metis option.inject pointer.inject)
  from region_written[OF r a, of S'] obtain a1 where
    a1: "region T (set_region b S' w) b = Some S'" "objs (set_region b S' w) this = Some a1"
      "count a1 = count a" "capacity a1 = capacity a" "using_heap a1 = using_heap a"
      "cached_data_ptr a1 = cached_data_ptr a" "b \<noteq> StackOf this \<longrightarrow> a1 = a"
    by blast
  define a' where "a' = a1\<lparr>count := g (count a1)\<rparr>"
  define w' where "w' = (set_region b S' w)\<lparr>objs := (objs (set_region b S' w))(this \<mapsto> a')\<rparr>"
  have run: "modify this (\<lambda>x. x\<lparr>count := g (count x)\<rparr>) (set_region b S' w) = Returns () w'"
    using a1(2) by (simp add: modify_def w'_def a'_def)
  have o': "objs w' this = Some a'" by (simp add: w'_def)
  have f': "count a' = g (count a)" "capacity a' = capacity a" "using_heap a' = using_heap a"
    "cached_data_ptr a' = Ptr b 0" "storage a' = storage a1"
    using a1 b by (simp_all add: a'_def)
  have r': "region T w' b = Some S'"
    unfolding w'_def using region_header_update[OF a1(2), of a' T b] a1(1) f'(5) by simp
  have cap: "capacity a \<le> length S" using consistent_capacity[OF c a b r] .
  have cons: "consistent T w' this"
  proof (rule consistentI[OF o', where b = b and S = S'])
    show "count a' \<le> capacity a'" using f' n by simp
    show "using_heap a' = (size_threshold T < capacity a')"
      using consistent_header[OF c a] f' by simp
    show "cached_data_ptr a' = Ptr b 0" using f' by simp
    show "region T w' b = Some S'" by (rule r')
    show "live_range T (count a') S'" using p by (simp add: live_range_def)
    show "b = StackOf this \<and> \<not> using_heap a' \<and> length S' = size_threshold T \<or>
     (\<exists>k. b = HeapBlock k \<and> using_heap a' \<and> storage a' = heap_ptr (Ptr b 0) \<and>
          k < next_block w' \<and> length S' = capacity a')"
      using own f' a1(7) len by (auto simp: w'_def)
  qed
  have es: "elements T w' this = Some (take (g (count a)) S')"
    using elements_region[OF o' f'(4) r'] f'(1) n cap len by simp
  have fr: "\<forall>c. c \<noteq> this \<longrightarrow> objs w' c = objs w c"
    using own by (auto simp: w'_def objs_set_region)
  show ?thesis
    using run cons o' f' es fr a
    by (auto simp: sbo_size_def sbo_capacity_def using_stack_buffer_def w'_def)
qed

lemma new_at_plain: "plain_old_data T \<Longrightarrow> new_at T p v w = store T p (Obj v) w"
  by (auto simp: new_at_def load_def store_def split: pointer.splits option.splits)

lemma push_plain_same:
  assumes "plain_old_data T"
  shows "PushBack_Move T this (Value v) w = PushBack_Copy T this (Value v) w"
    and "EmplaceBack T this (Value v) w = PushBack_Copy T this (Value v) w"
  using assms
  by (simp_all add: PushBack_Move_def PushBack_Copy_def EmplaceBack_def Construct_def
      MoveConstruct_def new_at_plain)

lemma PushBack_plain:
  assumes c: "consistent T w this" and p: "plain_old_data T" and m: "\<not> oom w"
    and a: "objs w this = Some a" and t: "0 < size_threshold T"
    and s: "0 < sizeof_T T"
    and fit: "count a = capacity a \<longrightarrow>
                max (if capacity a = 0 then to_float (size_threshold T)
                     else to_float (capacity a) * growth_factor) (size_threshold T) * sizeof_T T
                  < 2 ^ 64"
  shows "\<exists>w' es. PushBack_Copy T this (Value v) w = Returns () w' \<and> consistent T w' this \<and>
           sbo_capacity w' this =
             Some (if count a = capacity a
                   then max (if capacity a = 0 then to_float (size_threshold T)
                             else to_float (capacity a) * growth_factor) (size_threshold T)
                   else capacity a) \<and>
           sbo_size w' this = Some (Suc (count a)) \<and>
           elements T w this = Some es \<and> elements T w' this = Some (es @ [Obj v]) \<and>
           oom w' = oom w \<and> (\<forall>c. c \<noteq> this \<longrightarrow> objs w' c = objs w c)"
proof -
  define k where "k = (if count a = capacity a
                   then max (if capacity a = 0 then to_float (size_threshold T)
                             else to_float (capacity a) * growth_factor) (size_threshold T)
                   else capacity a)"
  from CheckSize_plain[OF c p m a s fit] obtain w1 where
    w1: "CheckSize T this w = Returns () w1" "consistent T w1 this"
      "sbo_capacity w1 this = Some k" "sbo_size w1 this = Some (count a)"
      "elements T w1 this = elements T w this" "oom w1 = oom w"
      "\<forall>c. c \<noteq> this \<longrightarrow> objs w1 c = objs w c"
    unfolding k_def by blast
  from consistent_obj[OF w1(2)] obtain a1 where a1: "objs w1 this = Some a1" by blast
  have f1: "count a1 = count a" "capacity a1 = k"
    using w1(3,4) a1 by (simp_all add: sbo_size_def sbo_capacity_def)
  have room: "count a < k"
  proof (cases "count a = capacity a")
    case False
    then show ?thesis using consistent_header(1)[OF c a] by (simp add: k_def)
  next
    case True
    show ?thesis
    proof (cases "capacity a = 0")
      case z: True
      then show ?thesis using True t by (simp add: k_def)
    next
      case False
      then have "capacity a < 2 * to_float (capacity a)" by (intro to_float_more_than_half) simp
      then show ?thesis using True False by (simp add: k_def growth_factor_def max_def)
    qed
  qed
  from consistent_region[OF w1(2) a1] obtain b S where
    b: "cached_data_ptr a1 = Ptr b 0" "region T w1 b = Some S" "count a1 \<le> length S" by blast
  have cap: "k \<le> length S" using consistent_capacity[OF w1(2) a1 b(1,2)] f1 by simp
  have st: "Construct T (ptr_add (cached_data_ptr a1) (int (count a1))) (Value v) w1
        = Returns () (set_region b (S[count a := Obj v]) w1)"
    using p b f1 room cap by (simp add: Construct_def store_def)
  from plain_commit[OF w1(2) a1 p b(1,2), of "S[count a := Obj v]" Suc] room f1
  obtain w' where w': "modify this (\<lambda>x. x\<lparr>count := Suc (count x)\<rparr>) (set_region b (S[count a := Obj v]) w1) = Returns () w'"
     "consistent T w' this" "sbo_size w' this = Some (Suc (count a))"
     "sbo_capacity w' this = Some k" "elements T w' this = Some (take (Suc (count a)) (S[count a := Obj v]))"
     "oom w' = oom w1" "\<forall>c. c \<noteq> this \<longrightarrow> objs w' c = objs w1 c"
    by auto
  have run: "PushBack_Copy T this (Value v) w = Returns () w'"
    using w1(1) a1 st w'(1) by (simp add: PushBack_Copy_def get_def)
  have es: "elements T w1 this = Some (take (count a) S)"
    using elements_region[OF a1 b(1,2,3)] f1 by simp
  have "take (Suc (count a)) (S[count a := Obj v]) = take (count a) S @ [Obj v]"
    using room cap by (simp add: take_Suc_conv_app_nth)
  then show ?thesis
    using run w' w1 es unfolding k_def by auto
qed

lemma insert_elements:
  assumes "idx \<le> c" "c < length S"
  shows "take (Suc c) ((take (idx + 1) S @ take (c - idx) (drop idx S) @ drop (c + 1) S)[idx := x])
         = take idx (take c S) @ [x] @ drop idx (take c S)"
proof -
  have i: "idx < length S" using assms by simp
  have "(take (idx + 1) S)[idx := x] = take idx S @ [x]"
    using i by (simp add: take_Suc_conv_app_nth list_update_append min_absorb2)
  then have u: "(take (idx + 1) S @ take (c - idx) (drop idx S) @ drop (c + 1) S)[idx := x]
     = (take idx S @ [x] @ take (c - idx) (drop idx S)) @ drop (c + 1) S"
    using i by (simp add: list_update_append)
  define A where "A = take idx S @ [x] @ take (c - idx) (drop idx S)"
  have "length A = Suc c" using assms by (auto simp: A_def)
  then have "take (Suc c) (A @ drop (c + 1) S) = A" by simp
  moreover have "take idx (take c S) = take idx S" using assms by (simp add: min_absorb1)
  moreover have "drop idx (take c S) = take (c - idx) (drop idx S)" by (simp add: drop_take)
  ultimately show ?thesis using u by (simp add: A_def)
qed

lemma memmove_right:
  assumes "region T w b = Some S" "c < length S" "idx \<le> c"
  shows "\<exists>w2. memmove T (Ptr b (int idx + 1)) (Ptr b (int idx)) (c - idx) w = Returns () w2 \<and>
          region T w2 b = Some (take (idx + 1) S @ take (c - idx) (drop idx S) @ drop (c + 1) S) \<and>
          set_region b X w2 = set_region b X w"
proof (cases "c - idx = 0")
  case True
  then have "idx = c" using assms by simp
  then have "take (idx + 1) S @ take (c - idx) (drop idx S) @ drop (c + 1) S = S" by simp
  then show ?thesis using True assms by (simp add: memmove_def)
next
  case False
  have "nat (int idx + 1) = idx + 1" "idx + 1 + (c - idx) = c + 1" "idx + (c - idx) = c"
    using assms by auto
  then show ?thesis using False assms
    by (simp add: memmove_def region_set_region set_region_twice)
qed

lemma CheckSize_skip:
  assumes "objs w this = Some a"
  shows "(if count a = capacity a then CheckSize T this w else Returns () w) = CheckSize T this w"
  using assms by (simp add: CheckSize_def get_def)

lemma Insert_plain:
  assumes c: "consistent T w this" and p: "plain_old_data T" and m: "\<not> oom w"
    and a: "objs w this = Some a" and t: "0 < size_threshold T" and i: "idx \<le> count a"
    and s: "0 < sizeof_T T"
    and fit: "count a = capacity a \<longrightarrow>
                max (if capacity a = 0 then to_float (size_threshold T)
                     else to_float (capacity a) * growth_factor) (size_threshold T) * sizeof_T T
                  < 2 ^ 64"
  shows "\<exists>w' a' es. Insert T this (ptr_add (cached_data_ptr a) (int idx)) (Value v) w
             = Returns (ptr_add (cached_data_ptr a') (int idx)) w' \<and>
           objs w' this = Some a' \<and> consistent T w' this \<and>
           sbo_capacity w' this =
             Some (if count a = capacity a
                   then max (if capacity a = 0 then to_float (size_threshold T)
                             else to_float (capacity a) * growth_factor) (size_threshold T)
                   else capacity a) \<and>
           sbo_size w' this = Some (Suc (count a)) \<and>
           elements T w this = Some es \<and>
           elements T w' this = Some (take idx es @ [Obj v] @ drop idx es) \<and>
           oom w' = oom w \<and> (\<forall>c. c \<noteq> this \<longrightarrow> objs w' c = objs w c)"
proof -
  define k where "k = (if count a = capacity a
                   then max (if capacity a = 0 then to_float (size_threshold T)
                             else to_float (capacity a) * growth_factor) (size_threshold T)
                   else capacity a)"
  from consistent_region[OF c a] obtain b0 S0 where
    b0: "cached_data_ptr a = Ptr b0 0" by blast
  from CheckSize_plain[OF c p m a s fit] obtain w1 where
    w1: "CheckSize T this w = Returns () w1" "consistent T w1 this"
      "sbo_capacity w1 this = Some k" "sbo_size w1 this = Some (count a)"
      "elements T w1 this = elements T w this" "oom w1 = oom w"
      "\<forall>c. c \<noteq> this \<longrightarrow> objs w1 c = objs w c"
    unfolding k_def by blast
  from consistent_obj[OF w1(2)] obtain a1 where a1: "objs w1 this = Some a1" by blast
  have f1: "count a1 = count a" "capacity a1 = k"
    using w1(3,4) a1 by (simp_all add: sbo_size_def sbo_capacity_def)
  have room: "count a < k"
  proof (cases "count a = capacity a")
    case False
    then show ?thesis using consistent_header(1)[OF c a] by (simp add: k_def)
  next
    case True
    show ?thesis
    proof (cases "capacity a = 0")
      case z: True
      then show ?thesis using True t by (simp add: k_def)
    next
      case False
      then have "capacity a < 2 * to_float (capacity a)" by (intro to_float_more_than_half) simp
      then show ?thesis using True False by (simp add: k_def growth_factor_def max_def)
    qed
  qed
  from consistent_region[OF w1(2) a1] obtain b S where
    b: "cached_data_ptr a1 = Ptr b 0" "region T w1 b = Some S" "count a1 \<le> length S" by blast
  have cap: "k \<le> length S" using consistent_capacity[OF w1(2) a1 b(1,2)] f1 by simp
  have lt: "count a < length S" using room cap by simp
  define S2 where "S2 = take (idx + 1) S @ take (count a - idx) (drop idx S) @ drop (count a + 1) S"
  from memmove_right[OF b(2) lt i, of "S2[idx := Obj v]"] obtain w2 where
    w2: "memmove T (Ptr b (int idx + 1)) (Ptr b (int idx)) (count a - idx) w1 = Returns () w2"
      "region T w2 b = Some S2" "set_region b (S2[idx := Obj v]) w2 = set_region b (S2[idx := Obj v]) w1"
    unfolding S2_def by blast
  have l2: "length S2 = length S" using lt i by (auto simp: S2_def)
  have st: "Construct T (Ptr b (int idx)) (Value v) w2 = Returns () (set_region b (S2[idx := Obj v]) w1)"
    using p w2(2,3) l2 lt i by (simp add: Construct_def store_def)
  from plain_commit[OF w1(2) a1 p b(1,2), of "S2[idx := Obj v]" Suc] room f1 l2
  obtain w' where w': "modify this (\<lambda>x. x\<lparr>count := Suc (count x)\<rparr>) (set_region b (S2[idx := Obj v]) w1) = Returns () w'"
     "consistent T w' this" "sbo_size w' this = Some (Suc (count a))"
     "sbo_capacity w' this = Some k" "elements T w' this = Some (take (Suc (count a)) (S2[idx := Obj v]))"
     "oom w' = oom w1" "\<forall>c. c \<noteq> this \<longrightarrow> objs w' c = objs w1 c"
     "using_stack_buffer w' this = using_stack_buffer w1 this"
    by auto
  from consistent_obj[OF w'(2)] obtain a' where a': "objs w' this = Some a'" by blast
  from consistent_region[OF w'(2) a'] obtain b' S' where
    b': "cached_data_ptr a' = Ptr b' 0" "region T w' b' = Some S'" by blast
  have same: "cached_data_ptr a' = cached_data_ptr a1"
    using w'(1) a1 a' by (auto simp: modify_def objs_set_region split: if_splits)
  have idxs: "int (count a) - int idx = int (count a - idx)" using i by simp
  have run: "Insert T this (Ptr b0 (int idx)) (Value v) w = Returns (Ptr b (int idx)) w'"
    using p a b0 w1(1) a1 b f1 i w2(1) st w'(1) idxs
    by (simp add: Insert_def begin_it_def end_it_def data_ptr_def get_def subtract_def
        CheckSize_skip[OF a] Let_def)
  define es where "es = take (count a) S"
  have ew: "elements T w this = Some es"
    using elements_region[OF a1 b(1,2,3)] f1 w1(5) by (simp add: es_def)
  have "take (Suc (count a)) (S2[idx := Obj v]) = take idx es @ [Obj v] @ drop idx es"
    unfolding S2_def es_def using insert_elements[OF i lt] .
  then have ew': "elements T w' this = Some (take idx es @ [Obj v] @ drop idx es)"
    using w'(5) by simp
  have ret: "Insert T this (ptr_add (cached_data_ptr a) (int idx)) (Value v) w
             = Returns (ptr_add (cached_data_ptr a') (int idx)) w'"
    using run b0 same b(1) by simp
  have k: "sbo_capacity w' this = Some (if count a = capacity a
                   then max (if capacity a = 0 then to_float (size_threshold T)
                             else to_float (capacity a) * growth_factor) (size_threshold T)
                   else capacity a)"
    using w'(4) by (simp add: k_def)
  have "oom w' = oom w" using w'(6) w1(6) by simp
  moreover have "\<forall>c. c \<noteq> this \<longrightarrow> objs w' c = objs w c" using w'(7) w1(7) by simp
  ultimately show ?thesis
    using ret a' w'(2) k w'(3) ew ew' by blast
qed

lemma calls_snoc: "calls (fs @ [f]) w = and_then (calls fs w) (\<lambda>_. f)"
proof (induction fs arbitrary: w)
  case Nil
  show ?case by (cases "f w") auto
next
  case (Cons g gs)
  have "calls (gs @ [f]) = (\<lambda>w. and_then (calls gs w) (\<lambda>_. f))"
    by (rule ext) (rule Cons.IH)
  then show ?case by (simp add: and_then_assoc)
qed

lemma ContainerConstructor_result:
  "\<exists>w'. ContainerConstructor T this w = Returns () w' \<and> consistent T w' this \<and>
        sbo_size w' this = Some 0 \<and> sbo_capacity w' this = Some (size_threshold T) \<and>
        elements T w' this = Some [] \<and> oom w' = oom w"
  by (simp add: ContainerConstructor_def create_def modify_def UpdateDataPointer_def
      member_init_def consistent_def sbo_size_def sbo_capacity_def elements_def stack_slots_def
      live_range_def list_all_length)

lemma consistent_mode:
  assumes "consistent T w this" "sbo_capacity w this = Some k"
  shows "using_stack_buffer w this = Some (k \<le> size_threshold T)"
  using assms
  by (auto simp: consistent_def sbo_capacity_def using_stack_buffer_def split: option.splits)

lemma push_run:
  assumes p: "plain_old_data T" and t: "0 < size_threshold T" and m: "\<not> oom w"
    and s: "0 < sizeof_T T"
    and fit: "to_float (size_threshold T) * growth_factor * sizeof_T T < 2 ^ 64"
    and k: "k \<le> length xs" "k \<le> size_threshold T + 1"
  shows "\<exists>w' cap.
          calls (ContainerConstructor T this # map (\<lambda>x. PushBack_Copy T this (Value x)) (take k xs)) w
             = Returns () w' \<and>
          consistent T w' this \<and> \<not> oom w' \<and> sbo_size w' this = Some k \<and>
          sbo_capacity w' this = Some cap \<and>
          (k \<le> size_threshold T \<longrightarrow> cap = size_threshold T) \<and>
          (k = size_threshold T + 1 \<longrightarrow> size_threshold T < cap) \<and>
          elements T w' this = Some (map Obj (take k xs))"
  using k
proof (induction k)
  case 0
  from ContainerConstructor_result[of T this w] m show ?case
    by (auto simp: and_then_assoc)
next
  case (Suc k)
  then obtain w1 cap where
    w1: "calls (ContainerConstructor T this # map (\<lambda>x. PushBack_Copy T this (Value x)) (take k xs)) w
             = Returns () w1" "consistent T w1 this" "\<not> oom w1" "sbo_size w1 this = Some k"
      "sbo_capacity w1 this = Some cap" "cap = size_threshold T"
      "elements T w1 this = Some (map Obj (take k xs))"
    by auto
  from consistent_obj[OF w1(2)] obtain a1 where a1: "objs w1 this = Some a1" by blast
  have f1: "count a1 = k" "capacity a1 = size_threshold T"
    using w1(4,5,6) a1 by (simp_all add: sbo_size_def sbo_capacity_def)
  have grow: "size_threshold T < to_float (size_threshold T) * growth_factor"
    using to_float_more_than_half[OF t] by (simp add: growth_factor_def mult.commute)
  then have mx: "max (to_float (size_threshold T) * growth_factor) (size_threshold T)
                   = to_float (size_threshold T) * growth_factor"
    by simp
  have fit1: "count a1 = capacity a1 \<longrightarrow>
                max (if capacity a1 = 0 then to_float (size_threshold T)
                     else to_float (capacity a1) * growth_factor) (size_threshold T) * sizeof_T T
                  < 2 ^ 64"
    using f1 t fit mx by simp
  from PushBack_plain[OF w1(2) p w1(3) a1 t s fit1, of "xs ! k"] obtain w' es where
    w': "PushBack_Copy T this (Value (xs ! k)) w1 = Returns () w'" "consistent T w' this"
      "sbo_capacity w' this =
             Some (if count a1 = capacity a1
                   then max (if capacity a1 = 0 then to_float (size_threshold T)
                             else to_float (capacity a1) * growth_factor) (size_threshold T)
                   else capacity a1)"
      "sbo_size w' this = Some (Suc (count a1))" "elements T w1 this = Some es"
      "elements T w' this = Some (es @ [Obj (xs ! k)])" "oom w' = oom w1"
    by blast
  have tk: "take (Suc k) xs = take k xs @ [xs ! k]"
    using Suc.prems by (simp add: take_Suc_conv_app_nth)
  have run: "calls (ContainerConstructor T this #
                    map (\<lambda>x. PushBack_Copy T this (Value x)) (take (Suc k) xs)) w
             = Returns () w'"
    using calls_snoc[of "ContainerConstructor T this #
                         map (\<lambda>x. PushBack_Copy T this (Value x)) (take k xs)"
        "PushBack_Copy T this (Value (xs ! k))" w] w1(1) w'(1)
    by (simp add: tk)
  show ?case
    using run w' w1 f1 t tk grow by (auto simp: max_def)
qed

lemma Reserve_plain:
  assumes c: "consistent T w this" and p: "plain_old_data T" and m: "\<not> oom w"
    and a: "objs w this = Some a" and s: "0 < sizeof_T T"
    and fit: "capacity a < n \<longrightarrow> max n (size_threshold T) * sizeof_T T < 2 ^ 64"
  shows "\<exists>w'. Reserve T this n w = Returns () w' \<and> consistent T w' this \<and>
           sbo_capacity w' this =
             Some (if capacity a < n then max n (size_threshold T) else capacity a) \<and>
           sbo_size w' this = Some (count a) \<and> elements T w' this = elements T w this \<and>
           (n \<le> capacity a \<longrightarrow> w' = w)"
proof (cases "capacity a < n")
  case False
  then show ?thesis using a c by (simp add: Reserve_def get_def sbo_capacity_def sbo_size_def)
next
  case True
  have le: "count a \<le> max n (size_threshold T)"
    using consistent_header(1)[OF c a] True by simp
  have fit': "max n (size_threshold T) * sizeof_T T < 2 ^ 64" using fit True by simp
  from consistent_elements[OF c a] obtain es where
    es: "elements T w this = Some es" "length es = count a" by blast
  from Resize_plain[OF c p m a s fit'] obtain w' where
    w': "Resize T this n w = Returns () w'" "consistent T w' this"
      "sbo_capacity w' this = Some (max n (size_threshold T))"
      "sbo_size w' this = Some (min (count a) (max n (size_threshold T)))"
      "elements T w' this =
           map_option (take (min (count a) (max n (size_threshold T)))) (elements T w this)"
    by blast
  have "Reserve T this n w = Returns () w'"
    using True a w'(1) by (simp add: Reserve_def get_def)
  then show ?thesis
    using w' le es True by (auto simp: min_absorb1)
qed

section \<open>Growth when the container is full\<close>

text \<open>
  Claim C3 says that whenever \<open>push_back\<close>, \<open>emplace_back\<close> or \<open>insert\<close> finds
  \<open>count == capacity\<close> the capacity grows by the factor 2, from zero to the threshold.
  As stated it fails: \<open>SboArray<int, 4> a{1}\<close> has size and capacity 1, and
  \<open>a.push_back(2)\<close> takes the capacity to 4, because \<open>Resize\<close> never goes below the
  threshold.
\<close>

theorem growth_counterexample:
  "size_after (calls [ContainerConstructor_List int4 0 [1]] world0) 0 = Some 1 \<and>
   capacity_after (calls [ContainerConstructor_List int4 0 [1]] world0) 0 = Some 1 \<and>
   capacity_after
     (calls [ContainerConstructor_List int4 0 [1], PushBack_Copy int4 0 (Value 2)] world0) 0
     = Some 4"
  by (simp add: run_defs)

text \<open>
  The argument of \<open>push_back\<close> is read after \<open>Resize\<close>: \<open>a.push_back(a[0])\<close> on the
  full \<open>SboArray<int, 2>\<close> holding 1, 2 appends the bytes that the slot holds once the
  union has taken the pointer to the new block, and no longer the value 1.
\<close>

lemma push_back_of_own_element:
  "\<exists>w. PushBack_Copy int2 0 (Ref (Ptr (StackOf 0) 0)) world_full = Returns () w \<and>
       elements int2 w 0 = Some [Obj 1, Obj 2, Raw]"
  by (simp add: run_defs)

text \<open>
  \<open>CheckSize\<close> rounds the threshold as well: an \<open>SboArray<int, 16777219>\<close> made from
  an empty initializer list has capacity 0, and the first \<open>push_back\<close> takes it to the
  capacity 16777220, on the heap.
\<close>

lemma bit_length_16777219: "bit_length 16777219 = 25"
  by (simp add: bit_length.simps)

lemma to_float_16777219: "to_float 16777219 = 16777220"
  by (simp add: to_float_def Let_def bit_length_16777219)

lemma threshold_is_rounded:
  "\<exists>w1 w2. ContainerConstructor_List int_wide 0 [] world0 = Returns () w1 \<and>
           sbo_capacity w1 0 = Some 0 \<and>
           PushBack_Copy int_wide 0 (Value 7) w1 = Returns () w2 \<and>
           sbo_capacity w2 0 = Some 16777220 \<and> using_stack_buffer w2 0 = Some False"
proof -
  have f: "plain_old_data int_wide" "size_threshold int_wide = 16777219" "sizeof_T int_wide = 4"
    by (simp_all add: int_wide_def)
  obtain w1 a1 where w1: "ContainerConstructor_List int_wide 0 [] world0 = Returns () w1"
    "objs w1 0 = Some a1" "count a1 = 0" "capacity a1 = 0" "consistent int_wide w1 0"
    "\<not> oom w1"
    using f
    by (simp add: ContainerConstructor_List_def create_def modify_def UpdateDataPointer_def
        get_def member_init_def world0_def consistent_def stack_slots_def live_range_def)
  have fit: "count a1 = capacity a1 \<longrightarrow>
                max (if capacity a1 = 0 then to_float (size_threshold int_wide)
                     else to_float (capacity a1) * growth_factor) (size_threshold int_wide)
                  * sizeof_T int_wide < 2 ^ 64"
    using w1 f by (simp add: to_float_16777219)
  from PushBack_plain[OF w1(5) f(1) w1(6) w1(2) _ _ fit, of 7] f w1 obtain w2 where
    w2: "PushBack_Copy int_wide 0 (Value 7) w1 = Returns () w2" "consistent int_wide w2 0"
      "sbo_capacity w2 0 = Some 16777220"
    by (auto simp: to_float_16777219)
  show ?thesis
    using w1 w2 consistent_mode[OF w2(2,3)] f by (auto simp: sbo_capacity_def)
qed

text \<open>
  Claim C3 as amended. For a plain element type, a positive threshold, an allocator that
  delivers, a container whose storage is consistent, an argument that is no element of a
  container, and a new capacity whose size in bytes \<open>size_t\<close> can hold: when
  \<open>push_back\<close>, \<open>emplace_back\<close> or \<open>insert\<close> finds \<open>count == capacity\<close>, the capacity
  becomes the larger of the threshold and twice the capacity, or, when the capacity was
  zero, the larger of the threshold and the threshold rounded to single precision; the
  container is inline afterwards exactly if the new capacity is the threshold. The
  operands are converted to single precision, which changes no value below \<open>2^24\<close>.
  Pushing \<open>threshold + 1\<close> values into a default-constructed container leaves the inline
  buffer exactly at the last push, and after each push the values pushed so far are read
  back in their order.
\<close>

theorem growth_when_full:
  assumes p: "plain_old_data T" and t: "0 < size_threshold T" and s: "0 < sizeof_T T"
    and m: "\<not> oom w"
  shows "(consistent T w this \<and> objs w this = Some a \<and> count a = capacity a \<and> idx \<le> count a \<and>
          new_capacity = max (size_threshold T)
                           (if capacity a = 0 then to_float (size_threshold T)
                            else to_float (capacity a) * growth_factor) \<and>
          new_capacity * sizeof_T T < 2 ^ 64 \<longrightarrow>
          (\<exists>w1 w2 w3 w4 pos.
             PushBack_Copy T this (Value v) w = Returns () w1 \<and>
             PushBack_Move T this (Value v) w = Returns () w2 \<and>
             EmplaceBack T this (Value v) w = Returns () w3 \<and>
             Insert T this (ptr_add (cached_data_ptr a) (int idx)) (Value v) w = Returns pos w4 \<and>
             (\<forall>w' \<in> {w1, w2, w3, w4}.
                sbo_capacity w' this = Some new_capacity \<and>
                using_stack_buffer w' this = Some (new_capacity \<le> size_threshold T)))) \<and>
         (\<forall>n < 2 ^ 24. to_float n = n \<and> to_float n * growth_factor = 2 * n) \<and>
         (length xs = size_threshold T + 1 \<and>
          to_float (size_threshold T) * growth_factor * sizeof_T T < 2 ^ 64 \<longrightarrow>
            (\<forall>k \<le> length xs. \<exists>w'.
               calls (ContainerConstructor T this #
                      map (\<lambda>x. PushBack_Copy T this (Value x)) (take k xs)) w
                 = Returns () w' \<and>
               using_stack_buffer w' this = Some (k \<le> size_threshold T) \<and>
               elements T w' this = Some (map Obj (take k xs))))"
proof (intro conjI impI allI)
  assume h: "consistent T w this \<and> objs w this = Some a \<and> count a = capacity a \<and> idx \<le> count a \<and>
          new_capacity = max (size_threshold T)
                           (if capacity a = 0 then to_float (size_threshold T)
                            else to_float (capacity a) * growth_factor) \<and>
          new_capacity * sizeof_T T < 2 ^ 64"
  then have c: "consistent T w this" and a: "objs w this = Some a"
    and f: "count a = capacity a" and i: "idx \<le> count a"
    and n: "new_capacity = max (if capacity a = 0 then to_float (size_threshold T)
                            else to_float (capacity a) * growth_factor) (size_threshold T)"
    and b: "new_capacity * sizeof_T T < 2 ^ 64"
    by (auto simp: max.commute)
  have fit: "count a = capacity a \<longrightarrow>
                max (if capacity a = 0 then to_float (size_threshold T)
                     else to_float (capacity a) * growth_factor) (size_threshold T) * sizeof_T T
                  < 2 ^ 64"
    using b n by simp
  from PushBack_plain[OF c p m a t s fit, of v] f n obtain w1 where
    w1: "PushBack_Copy T this (Value v) w = Returns () w1" "consistent T w1 this"
      "sbo_capacity w1 this = Some new_capacity"
    by auto
  from Insert_plain[OF c p m a t i s fit, of v] obtain w4 a4 es4 where
    x: "Insert T this (ptr_add (cached_data_ptr a) (int idx)) (Value v) w
             = Returns (ptr_add (cached_data_ptr a4) (int idx)) w4 \<and>
           objs w4 this = Some a4 \<and> consistent T w4 this \<and>
           sbo_capacity w4 this =
             Some (if count a = capacity a
                   then max (if capacity a = 0 then to_float (size_threshold T)
                             else to_float (capacity a) * growth_factor) (size_threshold T)
                   else capacity a) \<and>
           sbo_size w4 this = Some (Suc (count a)) \<and>
           elements T w this = Some es4 \<and>
           elements T w4 this = Some (take idx es4 @ [Obj v] @ drop idx es4) \<and>
           oom w4 = oom w \<and> (\<forall>c. c \<noteq> this \<longrightarrow> objs w4 c = objs w c)"
    by blast
  have w4: "Insert T this (ptr_add (cached_data_ptr a) (int idx)) (Value v) w
             = Returns (ptr_add (cached_data_ptr a4) (int idx)) w4"
      "consistent T w4 this" "sbo_capacity w4 this = Some new_capacity"
    using x f n by simp_all
  show "\<exists>w1 w2 w3 w4 pos.
             PushBack_Copy T this (Value v) w = Returns () w1 \<and>
             PushBack_Move T this (Value v) w = Returns () w2 \<and>
             EmplaceBack T this (Value v) w = Returns () w3 \<and>
             Insert T this (ptr_add (cached_data_ptr a) (int idx)) (Value v) w = Returns pos w4 \<and>
             (\<forall>w' \<in> {w1, w2, w3, w4}.
                sbo_capacity w' this = Some new_capacity \<and>
                using_stack_buffer w' this = Some (new_capacity \<le> size_threshold T))"
    using w1 w4 push_plain_same[OF p, of this v w]
      consistent_mode[OF w1(2,3)] consistent_mode[OF w4(2,3)]
    by auto
next
  fix n :: nat assume "n < 2 ^ 24"
  then show "to_float n = n" by (simp add: to_float_small)
next
  fix n :: nat assume "n < 2 ^ 24"
  then show "to_float n * growth_factor = 2 * n"
    by (simp add: to_float_small growth_factor_def)
next
  fix k assume l: "length xs = size_threshold T + 1 \<and>
          to_float (size_threshold T) * growth_factor * sizeof_T T < 2 ^ 64"
    and k: "k \<le> length xs"
  then have fit: "to_float (size_threshold T) * growth_factor * sizeof_T T < 2 ^ 64"
    and k': "k \<le> size_threshold T + 1" by simp_all
  from push_run[OF p t m s fit k k', of this] obtain w' cap where
    w': "calls (ContainerConstructor T this #
                map (\<lambda>x. PushBack_Copy T this (Value x)) (take k xs)) w
             = Returns () w'" "consistent T w' this" "sbo_capacity w' this = Some cap"
        "k \<le> size_threshold T \<longrightarrow> cap = size_threshold T"
        "k = size_threshold T + 1 \<longrightarrow> size_threshold T < cap"
        "elements T w' this = Some (map Obj (take k xs))"
    by auto
  have "(cap \<le> size_threshold T) = (k \<le> size_threshold T)"
    using w'(4,5) k' by auto
  then show "\<exists>w'. calls (ContainerConstructor T this #
                         map (\<lambda>x. PushBack_Copy T this (Value x)) (take k xs)) w
                 = Returns () w' \<and>
               using_stack_buffer w' this = Some (k \<le> size_threshold T) \<and>
               elements T w' this = Some (map Obj (take k xs))"
    using w' consistent_mode[OF w'(2,3)] by auto
qed

theorem growth_when_full_witness:
  "plain_old_data int2 \<and> 0 < size_threshold int2 \<and> 0 < sizeof_T int2 \<and>
   \<not> oom world_full \<and> \<not> oom (world0 :: int world) \<and>
   consistent int2 world_full 0 \<and> objs world_full 0 = Some obj_full \<and>
   count obj_full = capacity obj_full \<and>
   (4::nat) = max (size_threshold int2) (to_float (capacity obj_full) * growth_factor) \<and>
   4 * sizeof_T int2 < (2::nat) ^ 64 \<and>
   (\<exists>w1. PushBack_Copy int2 0 (Value 3) world_full = Returns () w1 \<and>
         sbo_capacity w1 0 = Some 4 \<and> using_stack_buffer w1 0 = Some False) \<and>
   (\<exists>w'. calls [ContainerConstructor int2 0, PushBack_Copy int2 0 (Value 1),
                PushBack_Copy int2 0 (Value 2), PushBack_Copy int2 0 (Value 3)] world0
           = Returns () w' \<and>
         using_stack_buffer w' 0 = Some False \<and>
         elements int2 w' 0 = Some [Obj 1, Obj 2, Obj 3])"
proof -
  have p: "plain_old_data int2" and t: "0 < size_threshold int2" "size_threshold int2 = 2"
    and s: "0 < sizeof_T int2" "sizeof_T int2 = 4"
    by (simp_all add: int2_def)
  have m: "\<not> oom world_full" "\<not> oom (world0 :: int world)"
    by (simp_all add: world_full_def world0_def)
  have c: "consistent int2 world_full 0" using valid_world_full by (simp add: valid_def)
  have o: "objs world_full 0 = Some obj_full" by (simp add: world_full_def)
  have f: "count obj_full = capacity obj_full" "capacity obj_full = 2" "(0::nat) \<le> count obj_full"
    by (simp_all add: obj_full_def)
  have g: "to_float 2 * growth_factor = 4" by (simp add: to_float_small growth_factor_def)
  from growth_when_full [OF p t(1) s(1) m(1), of 0 obj_full 0 4 3 "[]"] c o f g t(2) s(2)
  have 1: "\<exists>w1. PushBack_Copy int2 0 (Value 3) world_full = Returns () w1 \<and>
                sbo_capacity w1 0 = Some 4 \<and> using_stack_buffer w1 0 = Some False"
    by auto
  from growth_when_full [OF p t(1) s(1) m(2), of 0 obj_full 0 4 3 "[1, 2, 3]"] t(2) s(2) g
  have "\<forall>k \<le> 3. \<exists>w'.
               calls (ContainerConstructor int2 0 #
                      map (\<lambda>x. PushBack_Copy int2 0 (Value x)) (take k [1, 2, 3])) world0
                 = Returns () w' \<and>
               using_stack_buffer w' 0 = Some (k \<le> 2) \<and>
               elements int2 w' 0 = Some (map Obj (take k [1, 2, 3]))"
    by simp
  then have 2: "\<exists>w'. calls [ContainerConstructor int2 0, PushBack_Copy int2 0 (Value 1),
                PushBack_Copy int2 0 (Value 2), PushBack_Copy int2 0 (Value 3)] world0
           = Returns () w' \<and>
         using_stack_buffer w' 0 = Some False \<and>
         elements int2 w' 0 = Some [Obj 1, Obj 2, Obj 3]"
    by (elim allE[of _ 3]) simp
  from p t s m c o f g 1 2 show ?thesis by simp
qed

section \<open>Allocation failure for non-plain element types\<close>

text \<open>
  With \<open>::operator new\<close> the failure does reach the caller, before anything is changed:
  this is the path that the \<open>malloc\<close> branch of \<open>Malloc\<close> misses.
\<close>

lemma Resize_bad_alloc:
  assumes c: "consistent T w this" and p: "\<not> plain_old_data T" and m: "oom w"
    and a: "objs w this = Some a" and g: "size_threshold T < n" "capacity a < n"
  shows "Resize T this n w = Throws bad_alloc w"
    and "Reserve T this n w = Throws bad_alloc w"
proof -
  have u: "UpdateDataPointer T this w = Returns () w"
    using UpdateDataPointer_consistent[OF c] .
  show r: "Resize T this n w = Throws bad_alloc w"
    using a g p m u by (simp add: Resize_def get_def Let_def data_ptr_def Malloc_def max_def)
  show "Reserve T this n w = Throws bad_alloc w"
    using r a g by (simp add: Reserve_def get_def)
qed

end
